theory Spec2Isabelle
  imports Complex_Main
begin

section \<open>Arrays, parameter trees and errors\<close>

text \<open>
  The module under verification is \<^verbatim>\<open>coax/td_learning/_base.py\<close>: the classes
  \<^verbatim>\<open>BaseTDLearning\<close>, \<^verbatim>\<open>BaseTDLearningV\<close> and \<^verbatim>\<open>BaseTDLearningQ\<close>. The class
  \<^verbatim>\<open>BaseTDLearningQWithTargetPolicy\<close> only adds an entry to the two target dicts and is
  left out. \<^verbatim>\<open>jax.jit\<close> does not change what a function computes and is not modelled.

  An array element is a floating-point datum. Only the distinction between finite values,
  the two infinities and not-a-number matters to the control flow of the module, so an
  element is a real number or one of the three special values; rounding is not modelled.
  An array carries its shape and its elements in row-major order.
\<close>

datatype fval = Fin real | PosInf | NegInf | NaN

record ndarray =
  shape :: "nat list"
  data :: "fval list"

text \<open>
  A pytree, as \<^verbatim>\<open>jax\<close> sees Python containers: a leaf, \<^verbatim>\<open>None\<close> (a node without
  children), a tuple, a list, a named tuple (with the name of its class) or a dict of
  trees (entries in key order, the order in which \<^verbatim>\<open>jax\<close> flattens a dict).
\<close>

datatype 'a pytree =
    Leaf 'a
  | PNone
  | PTuple "'a pytree list"
  | PList "'a pytree list"
  | PNamedTuple string "'a pytree list"
  | PDict "(string \<times> 'a pytree) list"

type_synonym ptree = "ndarray pytree"
type_synonym prng_key = nat
type_synonym metrics = "string \<rightharpoonup> ndarray"

text \<open>\<^verbatim>\<open>jax.tree_leaves\<close>: the leaves, left to right.\<close>

fun tree_leaves :: "'a pytree \<Rightarrow> 'a list" where
  "tree_leaves (Leaf a) = [a]"
| "tree_leaves PNone = []"
| "tree_leaves (PTuple ts) = concat (map tree_leaves ts)"
| "tree_leaves (PList ts) = concat (map tree_leaves ts)"
| "tree_leaves (PNamedTuple c ts) = concat (map tree_leaves ts)"
| "tree_leaves (PDict kvs) = concat (map (\<lambda>kv. tree_leaves (snd kv)) kvs)"

text \<open>\<^verbatim>\<open>jax.tree_structure\<close>: the tree with every leaf forgotten.\<close>

definition tree_structure :: "'a pytree \<Rightarrow> unit pytree" where
  "tree_structure t = map_pytree (\<lambda>_. ()) t"

text \<open>\<^verbatim>\<open>jnp.isnan\<close> (elementwise) and \<^verbatim>\<open>jnp.any\<close>.\<close>

definition jnp_isnan :: "ndarray \<Rightarrow> bool list" where
  "jnp_isnan g = map (\<lambda>x. x = NaN) (data g)"

definition jnp_any :: "bool list \<Rightarrow> bool" where
  "jnp_any bs = list_ex (\<lambda>b. b) bs"

text \<open>
  The exceptions the module raises. The runtime error's message is formatted from the
  gradient tree, so the tree is its payload.
\<close>

datatype error =
    TypeError string
  | RuntimeError ptree
  | AttributeError string
  | AssertionError string

section \<open>External collaborators\<close>

text \<open>
  The transition batch; the module reads \<^verbatim>\<open>S\<close> and \<^verbatim>\<open>A\<close> only and hands the whole
  batch to \<^verbatim>\<open>target_func\<close>.
\<close>

record transition_batch =
  batch_S :: ndarray
  batch_A :: ndarray
  batch_rest :: "ndarray list"

text \<open>
  Function approximators: every one has \<^verbatim>\<open>params\<close>, \<^verbatim>\<open>function_state\<close> and
  the random key behind its property \<^verbatim>\<open>rng\<close>; a \<^verbatim>\<open>coax.V\<close> adds \<^verbatim>\<open>function\<close>, a \<^verbatim>\<open>coax.Q\<close> adds
  \<^verbatim>\<open>function_type1\<close> and \<^verbatim>\<open>action_preprocessor\<close>, a policy adds its own
  \<^verbatim>\<open>function\<close>. A forward function takes parameters, state, a random key, its inputs and
  the \<^verbatim>\<open>is_training\<close> flag, and returns its output with the new state.
\<close>

record approx =
  f_params :: ptree
  f_function_state :: ptree
  f_random_key :: prng_key

record v_approx = approx +
  v_function :: "ptree \<Rightarrow> ptree \<Rightarrow> prng_key \<Rightarrow> ndarray \<Rightarrow> bool \<Rightarrow> ndarray \<times> ptree"

record q_approx = approx +
  q_function_type1 ::
    "ptree \<Rightarrow> ptree \<Rightarrow> prng_key \<Rightarrow> ndarray \<Rightarrow> ndarray \<Rightarrow> bool \<Rightarrow> ndarray \<times> ptree"
  q_action_preprocessor :: "ndarray \<Rightarrow> ndarray"

record policy = approx +
  pi_function :: "ptree \<Rightarrow> ptree \<Rightarrow> prng_key \<Rightarrow> ndarray \<Rightarrow> bool \<Rightarrow> ptree \<times> ptree"

text \<open>
  A policy regularizer: its policy \<^verbatim>\<open>pi\<close>, its \<^verbatim>\<open>function\<close> (applied to the
  distribution parameters and to keyword arguments, the entries of a dict) and its
  \<^verbatim>\<open>hyperparams\<close>.
\<close>

record policy_regularizer =
  reg_pi :: policy
  reg_function :: "ptree \<Rightarrow> (string \<times> ptree) list \<Rightarrow> ndarray"
  reg_hyperparams :: ptree

text \<open>
  An optimizer: \<^verbatim>\<open>init(params)\<close> and \<^verbatim>\<open>update(grads, state, params=None)\<close>, which
  returns the updates and the new state.
\<close>

record optimizer =
  opt_init :: "ptree \<Rightarrow> ptree"
  opt_update :: "ptree \<Rightarrow> ptree \<Rightarrow> ptree option \<Rightarrow> ptree \<times> ptree"

text \<open>
  The library functions the module calls: \<^verbatim>\<open>optax.apply_updates\<close>, the defaults
  \<^verbatim>\<open>optax.adam(1e-3)\<close> and \<^verbatim>\<open>huber\<close>, \<^verbatim>\<open>jax.grad\<close> with respect to the first
  argument of a function that may raise, \<^verbatim>\<open>jax.grad(..., argnums=1)\<close> of a loss function,
  \<^verbatim>\<open>next\<close> on a \<^verbatim>\<open>hk.PRNGSequence\<close> (the key drawn and the rest of the sequence),
  \<^verbatim>\<open>jax.random.split\<close>, the array arithmetic of \<^verbatim>\<open>jax.numpy\<close> and
  \<^verbatim>\<open>get_grads_diagnostics\<close>. They are parameters of the model.
\<close>

record extern =
  optax_apply_updates :: "ptree \<Rightarrow> ptree \<Rightarrow> ptree"
  optax_adam :: optimizer
  huber :: "ndarray \<Rightarrow> ndarray \<Rightarrow> ndarray"
  jax_grad :: "(ptree \<Rightarrow> error + ndarray) \<Rightarrow> ptree \<Rightarrow> ptree"
  jax_grad_argnums1 :: "(ndarray \<Rightarrow> ndarray \<Rightarrow> ndarray) \<Rightarrow> ndarray \<Rightarrow> ndarray \<Rightarrow> ndarray"
  next_rng :: "prng_key \<Rightarrow> prng_key \<times> prng_key"
  jax_random_split :: "prng_key \<Rightarrow> prng_key \<times> prng_key"
  jnp_add :: "ndarray \<Rightarrow> ndarray \<Rightarrow> ndarray"
  jnp_subtract :: "ndarray \<Rightarrow> ndarray \<Rightarrow> ndarray"
  jnp_negative :: "ndarray \<Rightarrow> ndarray"
  jnp_mean :: "ndarray \<Rightarrow> ndarray"
  jnp_sqrt :: "ndarray \<Rightarrow> ndarray"
  jnp_square :: "ndarray \<Rightarrow> ndarray"
  get_grads_diagnostics :: "ptree \<Rightarrow> string \<Rightarrow> metrics"

text \<open>
  A Python value passed to a constructor, by its dynamic type. \<^verbatim>\<open>PyObject\<close> stands for a
  value of any other type, named by its type.
\<close>

datatype pyobj =
    PyNone
  | PyV v_approx
  | PyQ q_approx
  | PyPolicy policy
  | PyPolicyRegularizer policy_regularizer
  | PyList "pyobj list"
  | PyTuple "pyobj list"
  | PyObject string

section \<open>The engine\<close>

text \<open>
  \<^verbatim>\<open>self._f_targ\<close> is the online function itself when no target was given (the two
  attributes then alias one object), another approximator, or, for a Q-learner, a list or a
  tuple.
\<close>

datatype 'a targ_ref =
    TargIsOnline
  | TargObj 'a
  | TargList "pyobj list"
  | TargTuple "pyobj list"

record 'm engine =
  self_f :: "'m approx_scheme"
  self_f_targ :: "'m approx_scheme targ_ref"
  self_loss_function :: "ndarray \<Rightarrow> ndarray \<Rightarrow> ndarray"
  self_policy_regularizer :: "policy_regularizer option"
  self_optimizer :: optimizer
  self_optimizer_state :: ptree

text \<open>
  What a concrete class supplies to the base class: its name, the abstract
  \<^verbatim>\<open>target_func\<close>, the properties \<^verbatim>\<open>target_params\<close> and
  \<^verbatim>\<open>target_function_state\<close>, and the three closures its constructor stores in
  \<^verbatim>\<open>self\<close>. A closure that captures \<^verbatim>\<open>self\<close> takes it as an argument.
\<close>

record ('m, 'tp, 'ts) td_class =
  cls_target_params :: "'m engine \<Rightarrow> error + 'tp"
  cls_target_function_state :: "'m engine \<Rightarrow> error + 'ts"
  cls_apply_grads_func :: "optimizer \<Rightarrow> ptree \<Rightarrow> ptree \<Rightarrow> ptree \<Rightarrow> ptree \<times> ptree"
  cls_grads_and_metrics_func ::
    "'m engine \<Rightarrow> ptree \<Rightarrow> 'tp \<Rightarrow> ptree \<Rightarrow> 'ts \<Rightarrow> prng_key \<Rightarrow> transition_batch
      \<Rightarrow> error + (ptree \<times> ptree \<times> metrics)"
  cls_td_error_func ::
    "'m engine \<Rightarrow> ptree \<Rightarrow> 'tp \<Rightarrow> ptree \<Rightarrow> 'ts \<Rightarrow> prng_key \<Rightarrow> transition_batch
      \<Rightarrow> error + ndarray"

subsection \<open>BaseTDLearning\<close>

text \<open>The closure \<^verbatim>\<open>apply_grads_func\<close> of \<^verbatim>\<open>BaseTDLearning.__init__\<close>.\<close>

definition apply_grads_func ::
  "extern \<Rightarrow> optimizer \<Rightarrow> ptree \<Rightarrow> ptree \<Rightarrow> ptree \<Rightarrow> ptree \<times> ptree" where
  "apply_grads_func lib opt opt_state params grads =
     (let (updates, new_opt_state) = opt_update opt grads opt_state (Some params);
          new_params = optax_apply_updates lib params updates
      in (new_opt_state, new_params))"

text \<open>
  \<^verbatim>\<open>BaseTDLearning.__init__\<close>, after the subclass has checked \<^verbatim>\<open>f\<close> and
  \<^verbatim>\<open>f_targ\<close>. The result comes with the list of parameter trees on which
  \<^verbatim>\<open>optimizer.init\<close> has been called.
\<close>

definition BaseTDLearning_init ::
  "extern \<Rightarrow> 'm approx_scheme \<Rightarrow> 'm approx_scheme targ_ref option \<Rightarrow> optimizer option
    \<Rightarrow> (ndarray \<Rightarrow> ndarray \<Rightarrow> ndarray) option \<Rightarrow> pyobj
    \<Rightarrow> (error + 'm engine) \<times> ptree list" where
  "BaseTDLearning_init lib f f_targ optimizer loss_function policy_regularizer =
     (let f' = f;
          f_targ' = (case f_targ of None \<Rightarrow> TargIsOnline | Some t \<Rightarrow> t);
          loss_function' = (case loss_function of None \<Rightarrow> huber lib | Some l \<Rightarrow> l)
      in case (case policy_regularizer of
                 PyPolicyRegularizer r \<Rightarrow> Inr (Some r)
               | PyNone \<Rightarrow> Inr None
               | _ \<Rightarrow> Inl (TypeError ''policy_regularizer must be PolicyRegularizer'')) of
           Inl e \<Rightarrow> (Inl e, [])
         | Inr policy_regularizer' \<Rightarrow>
             (let optimizer' = (case optimizer of None \<Rightarrow> optax_adam lib | Some opt \<Rightarrow> opt);
                  optimizer_state' = opt_init optimizer' (f_params f')
              in (Inr \<lparr>self_f = f', self_f_targ = f_targ', self_loss_function = loss_function',
                       self_policy_regularizer = policy_regularizer',
                       self_optimizer = optimizer', self_optimizer_state = optimizer_state'\<rparr>,
                  [f_params f'])))"

text \<open>
  \<^verbatim>\<open>any(jnp.any(jnp.isnan(g)) for g in jax.tree_leaves(grads))\<close>, the test of
  \<^verbatim>\<open>update\<close>.
\<close>

definition grads_have_nan :: "ptree \<Rightarrow> bool" where
  "grads_have_nan grads = list_ex (\<lambda>g. jnp_any (jnp_isnan g)) (tree_leaves grads)"

text \<open>
  Modelled from the spec: the property \<^verbatim>\<open>rng\<close> of a function approximator, which the
  specification lists among the capabilities of the function object and whose class
  \<^verbatim>\<open>RandomStateMixin\<close> is not part of the module. Every read splits the approximator's
  key, keeps the first half as the new key and returns the second:
  \<^verbatim>\<open>self._random_key, key = jax.random.split(self._random_key); return key\<close>.
\<close>

definition read_rng :: "extern \<Rightarrow> 'm approx_scheme \<Rightarrow> prng_key \<times> 'm approx_scheme" where
  "read_rng lib f =
     (let (random_key, key) = jax_random_split lib (f_random_key f)
      in (key, f\<lparr>f_random_key := random_key\<rparr>))"

text \<open>
  The methods. A method takes \<^verbatim>\<open>self\<close> and returns its outcome (a raised error or the
  returned value) together with \<^verbatim>\<open>self\<close> as the call leaves it. The arguments of a
  call are evaluated from left to right, so \<^verbatim>\<open>self._f.rng\<close> is read after the two
  target dicts have been built.
\<close>

definition grads_and_metrics ::
  "extern \<Rightarrow> ('m, 'tp, 'ts) td_class \<Rightarrow> 'm engine \<Rightarrow> transition_batch
    \<Rightarrow> (error + (ptree \<times> ptree \<times> metrics)) \<times> 'm engine" where
  "grads_and_metrics lib C self transition_batch =
     (let params = f_params (self_f self)
      in case cls_target_params C self of
           Inl e \<Rightarrow> (Inl e, self)
         | Inr target_params \<Rightarrow>
             (let function_state = f_function_state (self_f self)
              in case cls_target_function_state C self of
                   Inl e \<Rightarrow> (Inl e, self)
                 | Inr target_function_state \<Rightarrow>
                     (let (rng, f1) = read_rng lib (self_f self);
                          self1 = self\<lparr>self_f := f1\<rparr>
                      in (cls_grads_and_metrics_func C self1
                            params target_params function_state target_function_state
                            rng transition_batch,
                          self1))))"

definition td_error ::
  "extern \<Rightarrow> ('m, 'tp, 'ts) td_class \<Rightarrow> 'm engine \<Rightarrow> transition_batch
    \<Rightarrow> (error + ndarray) \<times> 'm engine" where
  "td_error lib C self transition_batch =
     (let params = f_params (self_f self)
      in case cls_target_params C self of
           Inl e \<Rightarrow> (Inl e, self)
         | Inr target_params \<Rightarrow>
             (let function_state = f_function_state (self_f self)
              in case cls_target_function_state C self of
                   Inl e \<Rightarrow> (Inl e, self)
                 | Inr target_function_state \<Rightarrow>
                     (let (rng, f1) = read_rng lib (self_f self);
                          self1 = self\<lparr>self_f := f1\<rparr>
                      in (cls_td_error_func C self1
                            params target_params function_state target_function_state
                            rng transition_batch,
                          self1))))"

definition update_from_grads ::
  "('m, 'tp, 'ts) td_class \<Rightarrow> 'm engine \<Rightarrow> ptree \<Rightarrow> ptree \<Rightarrow> unit \<times> 'm engine" where
  "update_from_grads C self grads function_state =
     (let self1 = self\<lparr>self_f := (self_f self)\<lparr>f_function_state := function_state\<rparr>\<rparr>;
          (new_opt_state, new_params) =
             cls_apply_grads_func C (self_optimizer self1) (self_optimizer_state self1)
               (f_params (self_f self1)) grads;
          self2 = self1\<lparr>self_optimizer_state := new_opt_state\<rparr>;
          self3 = self2\<lparr>self_f := (self_f self2)\<lparr>f_params := new_params\<rparr>\<rparr>
      in ((), self3))"

definition update ::
  "extern \<Rightarrow> ('m, 'tp, 'ts) td_class \<Rightarrow> 'm engine \<Rightarrow> transition_batch
    \<Rightarrow> (error + metrics) \<times> 'm engine" where
  "update lib C self transition_batch =
     (case grads_and_metrics lib C self transition_batch of
        (Inl e, self1) \<Rightarrow> (Inl e, self1)
      | (Inr (grads, function_state, metrics), self1) \<Rightarrow>
          if grads_have_nan grads then (Inl (RuntimeError grads), self1)
          else (let (_, self2) = update_from_grads C self1 grads function_state
                in (Inr metrics, self2)))"

text \<open>The setter of the property \<^verbatim>\<open>optimizer\<close>.\<close>

definition set_optimizer :: "'m engine \<Rightarrow> optimizer \<Rightarrow> (error + unit) \<times> 'm engine" where
  "set_optimizer self new_optimizer =
     (let new_optimizer_state_structure =
            tree_structure (opt_init new_optimizer (f_params (self_f self)))
      in if new_optimizer_state_structure \<noteq> tree_structure (self_optimizer_state self)
         then (Inl (AttributeError
                 ''cannot set optimizer attr: mismatch in optimizer_state structure''), self)
         else (Inr (), self\<lparr>self_optimizer := new_optimizer\<rparr>))"

subsection \<open>BaseTDLearningV\<close>

text \<open>
  The immutable dicts returned by the properties \<^verbatim>\<open>target_params\<close> and
  \<^verbatim>\<open>target_function_state\<close> have a fixed set of keys; each is a record with one field
  per key.
\<close>

record v_target_params =
  vtp_v :: ptree
  vtp_v_targ :: ptree
  vtp_reg_pi :: ptree
  vtp_reg_hparams :: ptree

record v_target_state =
  vts_v :: ptree
  vts_v_targ :: ptree
  vts_reg_pi :: ptree

type_synonym v_engine = "unit v_approx_ext engine"
type_synonym q_engine = "unit q_approx_ext engine"

text \<open>
  The properties \<^verbatim>\<open>v_targ\<close> and \<^verbatim>\<open>q_targ\<close> return \<^verbatim>\<open>self._f_targ\<close>; reading an
  approximator's attribute from it fails on a list or a tuple.
\<close>

definition f_targ_obj :: "'m engine \<Rightarrow> error + 'm approx_scheme" where
  "f_targ_obj self =
     (case self_f_targ self of
        TargIsOnline \<Rightarrow> Inr (self_f self)
      | TargObj t \<Rightarrow> Inr t
      | TargList _ \<Rightarrow> Inl (AttributeError ''list object has no such attribute'')
      | TargTuple _ \<Rightarrow> Inl (AttributeError ''tuple object has no such attribute''))"

definition reg_pi_params :: "'m engine \<Rightarrow> ptree" where
  "reg_pi_params self =
     (case self_policy_regularizer self of None \<Rightarrow> PNone | Some r \<Rightarrow> f_params (reg_pi r))"

definition reg_pi_function_state :: "'m engine \<Rightarrow> ptree" where
  "reg_pi_function_state self =
     (case self_policy_regularizer self of None \<Rightarrow> PNone
      | Some r \<Rightarrow> f_function_state (reg_pi r))"

definition reg_hparams :: "'m engine \<Rightarrow> ptree" where
  "reg_hparams self =
     (case self_policy_regularizer self of None \<Rightarrow> PNone | Some r \<Rightarrow> reg_hyperparams r)"

definition target_params_V :: "v_engine \<Rightarrow> error + v_target_params" where
  "target_params_V self =
     (case f_targ_obj self of
        Inl e \<Rightarrow> Inl e
      | Inr v_targ \<Rightarrow>
          Inr \<lparr>vtp_v = f_params (self_f self), vtp_v_targ = f_params v_targ,
               vtp_reg_pi = reg_pi_params self, vtp_reg_hparams = reg_hparams self\<rparr>)"

definition target_function_state_V :: "v_engine \<Rightarrow> error + v_target_state" where
  "target_function_state_V self =
     (case f_targ_obj self of
        Inl e \<Rightarrow> Inl e
      | Inr v_targ \<Rightarrow>
          Inr \<lparr>vts_v = f_function_state (self_f self), vts_v_targ = f_function_state v_targ,
               vts_reg_pi = reg_pi_function_state self\<rparr>)"

text \<open>
  The closure \<^verbatim>\<open>loss_func\<close> of \<^verbatim>\<open>BaseTDLearningV.__init__\<close>. It returns the loss and
  the auxiliary tuple \<^verbatim>\<open>(loss, G, V, S, state_new)\<close>, or raises: the call
  \<^verbatim>\<open>function(dist_params, **target_params['reg_hparams'])\<close> raises a type error unless
  the hyperparameters are a dict, and the assertion on the shapes follows it.
\<close>

definition loss_func_V ::
  "extern \<Rightarrow> (v_target_params \<Rightarrow> v_target_state \<Rightarrow> prng_key \<Rightarrow> transition_batch \<Rightarrow> ndarray)
    \<Rightarrow> v_engine \<Rightarrow> ptree \<Rightarrow> v_target_params \<Rightarrow> ptree \<Rightarrow> v_target_state \<Rightarrow> prng_key
    \<Rightarrow> transition_batch
    \<Rightarrow> error + (ndarray \<times> (ndarray \<times> ndarray \<times> ndarray \<times> ndarray \<times> ptree))" where
  "loss_func_V lib target_func self params target_params state target_state rng transition_batch =
     (let rngs = rng;
          S = batch_S transition_batch;
          (k1, rngs) = next_rng lib rngs;
          G = target_func target_params target_state k1 transition_batch;
          (k2, rngs) = next_rng lib rngs;
          (V, state_new) = v_function (self_f self) params state k2 S True
      in case self_policy_regularizer self of
           None \<Rightarrow>
             (let loss = self_loss_function self G V
              in Inr (loss, (loss, G, V, S, state_new)))
         | Some pr \<Rightarrow>
             (let (k3, rngs) = next_rng lib rngs;
                  (dist_params, _) =
                     pi_function (reg_pi pr) (vtp_reg_pi target_params)
                       (vts_reg_pi target_state) k3 S False
              in case vtp_reg_hparams target_params of
                   PDict kwargs \<Rightarrow>
                     (let reg = reg_function pr dist_params kwargs
                      in if shape reg \<noteq> shape G then Inl (AssertionError ''bad shape'')
                         else (let G = jnp_add lib G (jnp_negative lib reg);
                                   loss = self_loss_function self G V
                               in Inr (loss, (loss, G, V, S, state_new))))
                 | _ \<Rightarrow> Inl (TypeError ''argument after ** must be a mapping'')))"

text \<open>The closure \<^verbatim>\<open>grads_and_metrics_func\<close> of \<^verbatim>\<open>BaseTDLearningV.__init__\<close>.\<close>

definition grads_and_metrics_func_V ::
  "extern \<Rightarrow> string
    \<Rightarrow> (v_target_params \<Rightarrow> v_target_state \<Rightarrow> prng_key \<Rightarrow> transition_batch \<Rightarrow> ndarray)
    \<Rightarrow> v_engine \<Rightarrow> ptree \<Rightarrow> v_target_params \<Rightarrow> ptree \<Rightarrow> v_target_state \<Rightarrow> prng_key
    \<Rightarrow> transition_batch \<Rightarrow> error + (ptree \<times> ptree \<times> metrics)" where
  "grads_and_metrics_func_V lib name target_func self
       params target_params state target_state rng transition_batch =
     (let rngs = rng;
          (k1, rngs) = next_rng lib rngs
      in case loss_func_V lib target_func self
                params target_params state target_state k1 transition_batch of
           Inl e \<Rightarrow> Inl e
         | Inr (_, (loss, G, V, S, state_new)) \<Rightarrow>
             (let grads =
                    jax_grad lib
                      (\<lambda>p. map_sum id fst
                             (loss_func_V lib target_func self
                                p target_params state target_state k1 transition_batch))
                      params;
                  (k2, rngs) = next_rng lib rngs
              in case f_targ_obj self of
                   Inl e \<Rightarrow> Inl e
                 | Inr v_targ \<Rightarrow>
                     (let (V_targ, _) =
                            v_function v_targ (vtp_v_targ target_params) state k2 S False;
                          err = jnp_subtract lib V G;
                          err_targ = jnp_subtract lib V_targ V;
                          metrics =
                            [name @ ''/loss'' \<mapsto> loss,
                             name @ ''/bias'' \<mapsto> jnp_mean lib err,
                             name @ ''/rmse'' \<mapsto>
                               jnp_sqrt lib (jnp_mean lib (jnp_square lib err)),
                             name @ ''/bias_targ'' \<mapsto> jnp_mean lib err_targ,
                             name @ ''/rmse_targ'' \<mapsto>
                               jnp_sqrt lib (jnp_mean lib (jnp_square lib err_targ))];
                          metrics = metrics ++ get_grads_diagnostics lib grads (name @ ''/grads_'')
                      in Inr (grads, state_new, metrics))))"

text \<open>The closure \<^verbatim>\<open>td_error_func\<close> of \<^verbatim>\<open>BaseTDLearningV.__init__\<close>.\<close>

definition td_error_func_V ::
  "extern \<Rightarrow> (v_target_params \<Rightarrow> v_target_state \<Rightarrow> prng_key \<Rightarrow> transition_batch \<Rightarrow> ndarray)
    \<Rightarrow> v_engine \<Rightarrow> ptree \<Rightarrow> v_target_params \<Rightarrow> ptree \<Rightarrow> v_target_state \<Rightarrow> prng_key
    \<Rightarrow> transition_batch \<Rightarrow> error + ndarray" where
  "td_error_func_V lib target_func self params target_params state target_state rng transition_batch =
     (let rngs = rng;
          S = batch_S transition_batch;
          (k1, rngs) = next_rng lib rngs;
          G = target_func target_params target_state k1 transition_batch;
          (k2, rngs) = next_rng lib rngs;
          (V, _) = v_function (self_f self) params state k2 S False
      in case self_policy_regularizer self of
           None \<Rightarrow>
             (let dL_dV = jax_grad_argnums1 lib (self_loss_function self)
              in Inr (jnp_negative lib (dL_dV G V)))
         | Some pr \<Rightarrow>
             (let (k3, rngs) = next_rng lib rngs;
                  (dist_params, _) =
                     pi_function (reg_pi pr) (vtp_reg_pi target_params)
                       (vts_reg_pi target_state) k3 S False
              in case vtp_reg_hparams target_params of
                   PDict kwargs \<Rightarrow>
                     (let reg = reg_function pr dist_params kwargs
                      in if shape reg \<noteq> shape G then Inl (AssertionError ''bad shape'')
                         else (let G = jnp_add lib G (jnp_negative lib reg);
                                   dL_dV = jax_grad_argnums1 lib (self_loss_function self)
                               in Inr (jnp_negative lib (dL_dV G V))))
                 | _ \<Rightarrow> Inl (TypeError ''argument after ** must be a mapping'')))"

text \<open>
  What \<^verbatim>\<open>BaseTDLearningV\<close> supplies: it keeps the base class's
  \<^verbatim>\<open>apply_grads_func\<close>.
\<close>

definition BaseTDLearningV_class ::
  "extern \<Rightarrow> string
    \<Rightarrow> (v_target_params \<Rightarrow> v_target_state \<Rightarrow> prng_key \<Rightarrow> transition_batch \<Rightarrow> ndarray)
    \<Rightarrow> (unit v_approx_ext, v_target_params, v_target_state) td_class" where
  "BaseTDLearningV_class lib name target_func =
     \<lparr>cls_target_params = target_params_V,
      cls_target_function_state = target_function_state_V,
      cls_apply_grads_func = apply_grads_func lib,
      cls_grads_and_metrics_func = grads_and_metrics_func_V lib name target_func,
      cls_td_error_func = td_error_func_V lib target_func\<rparr>"

text \<open>\<^verbatim>\<open>BaseTDLearningV.__init__\<close>: the two type checks, then the base constructor.\<close>

definition BaseTDLearningV_init ::
  "extern \<Rightarrow> pyobj \<Rightarrow> pyobj \<Rightarrow> optimizer option \<Rightarrow> (ndarray \<Rightarrow> ndarray \<Rightarrow> ndarray) option
    \<Rightarrow> pyobj \<Rightarrow> (error + v_engine) \<times> ptree list" where
  "BaseTDLearningV_init lib v v_targ optimizer loss_function policy_regularizer =
     (case v of
        PyV v' \<Rightarrow>
          (case (case v_targ of
                   PyV t \<Rightarrow> Inr (Some (TargObj t))
                 | PyNone \<Rightarrow> Inr None
                 | _ \<Rightarrow> Inl (TypeError ''v_targ must be a coax.Q or None'')) of
             Inl e \<Rightarrow> (Inl e, [])
           | Inr v_targ' \<Rightarrow>
               BaseTDLearning_init lib v' v_targ' optimizer loss_function policy_regularizer)
      | _ \<Rightarrow> (Inl (TypeError ''v must be a coax.V''), []))"

subsection \<open>BaseTDLearningQ\<close>

record q_target_params =
  qtp_q :: ptree
  qtp_q_targ :: ptree
  qtp_reg_pi :: ptree
  qtp_reg_hparams :: ptree

record q_target_state =
  qts_q :: ptree
  qts_q_targ :: ptree
  qts_reg_pi :: ptree

definition target_params_Q :: "q_engine \<Rightarrow> error + q_target_params" where
  "target_params_Q self =
     (case f_targ_obj self of
        Inl e \<Rightarrow> Inl e
      | Inr q_targ \<Rightarrow>
          Inr \<lparr>qtp_q = f_params (self_f self), qtp_q_targ = f_params q_targ,
               qtp_reg_pi = reg_pi_params self, qtp_reg_hparams = reg_hparams self\<rparr>)"

definition target_function_state_Q :: "q_engine \<Rightarrow> error + q_target_state" where
  "target_function_state_Q self =
     (case f_targ_obj self of
        Inl e \<Rightarrow> Inl e
      | Inr q_targ \<Rightarrow>
          Inr \<lparr>qts_q = f_function_state (self_f self), qts_q_targ = f_function_state q_targ,
               qts_reg_pi = reg_pi_function_state self\<rparr>)"

text \<open>
  The closure \<^verbatim>\<open>loss_func\<close> of \<^verbatim>\<open>BaseTDLearningQ.__init__\<close>; the auxiliary tuple is
  \<^verbatim>\<open>(loss, G, Q, S, A, state_new)\<close>.
\<close>

definition loss_func_Q ::
  "extern \<Rightarrow> (q_target_params \<Rightarrow> q_target_state \<Rightarrow> prng_key \<Rightarrow> transition_batch \<Rightarrow> ndarray)
    \<Rightarrow> q_engine \<Rightarrow> ptree \<Rightarrow> q_target_params \<Rightarrow> ptree \<Rightarrow> q_target_state \<Rightarrow> prng_key
    \<Rightarrow> transition_batch
    \<Rightarrow> error + (ndarray \<times> (ndarray \<times> ndarray \<times> ndarray \<times> ndarray \<times> ndarray \<times> ptree))" where
  "loss_func_Q lib target_func self params target_params state target_state rng transition_batch =
     (let rngs = rng;
          S = batch_S transition_batch;
          A = batch_A transition_batch;
          A = q_action_preprocessor (self_f self) A;
          (k1, rngs) = next_rng lib rngs;
          G = target_func target_params target_state k1 transition_batch;
          (k2, rngs) = next_rng lib rngs;
          (Q, state_new) = q_function_type1 (self_f self) params state k2 S A True
      in case self_policy_regularizer self of
           None \<Rightarrow>
             (let loss = self_loss_function self G Q
              in Inr (loss, (loss, G, Q, S, A, state_new)))
         | Some pr \<Rightarrow>
             (let (k3, rngs) = next_rng lib rngs;
                  (dist_params, _) =
                     pi_function (reg_pi pr) (qtp_reg_pi target_params)
                       (qts_reg_pi target_state) k3 S False
              in case qtp_reg_hparams target_params of
                   PDict kwargs \<Rightarrow>
                     (let reg = reg_function pr dist_params kwargs
                      in if shape reg \<noteq> shape G then Inl (AssertionError ''bad shape'')
                         else (let G = jnp_add lib G (jnp_negative lib reg);
                                   loss = self_loss_function self G Q
                               in Inr (loss, (loss, G, Q, S, A, state_new))))
                 | _ \<Rightarrow> Inl (TypeError ''argument after ** must be a mapping'')))"

text \<open>The closure \<^verbatim>\<open>grads_and_metrics_func\<close> of \<^verbatim>\<open>BaseTDLearningQ.__init__\<close>.\<close>

definition grads_and_metrics_func_Q ::
  "extern \<Rightarrow> string
    \<Rightarrow> (q_target_params \<Rightarrow> q_target_state \<Rightarrow> prng_key \<Rightarrow> transition_batch \<Rightarrow> ndarray)
    \<Rightarrow> q_engine \<Rightarrow> ptree \<Rightarrow> q_target_params \<Rightarrow> ptree \<Rightarrow> q_target_state \<Rightarrow> prng_key
    \<Rightarrow> transition_batch \<Rightarrow> error + (ptree \<times> ptree \<times> metrics)" where
  "grads_and_metrics_func_Q lib name target_func self
       params target_params state target_state rng transition_batch =
     (let rngs = rng;
          (k1, rngs) = next_rng lib rngs
      in case loss_func_Q lib target_func self
                params target_params state target_state k1 transition_batch of
           Inl e \<Rightarrow> Inl e
         | Inr (_, (loss, G, Q, S, A, state_new)) \<Rightarrow>
             (let grads =
                    jax_grad lib
                      (\<lambda>p. map_sum id fst
                             (loss_func_Q lib target_func self
                                p target_params state target_state k1 transition_batch))
                      params;
                  (k2, rngs) = next_rng lib rngs
              in case f_targ_obj self of
                   Inl e \<Rightarrow> Inl e
                 | Inr q_targ \<Rightarrow>
                     (let (Q_targ, _) =
                            q_function_type1 q_targ (qtp_q_targ target_params)
                              (qts_q_targ target_state) k2 S A False;
                          err = jnp_subtract lib Q G;
                          err_targ = jnp_subtract lib Q_targ Q;
                          metrics =
                            [name @ ''/loss'' \<mapsto> loss,
                             name @ ''/bias'' \<mapsto> jnp_mean lib err,
                             name @ ''/rmse'' \<mapsto>
                               jnp_sqrt lib (jnp_mean lib (jnp_square lib err)),
                             name @ ''/bias_targ'' \<mapsto> jnp_mean lib err_targ,
                             name @ ''/rmse_targ'' \<mapsto>
                               jnp_sqrt lib (jnp_mean lib (jnp_square lib err_targ))];
                          metrics = metrics ++ get_grads_diagnostics lib grads (name @ ''/grads_'')
                      in Inr (grads, state_new, metrics))))"

text \<open>The closure \<^verbatim>\<open>td_error_func\<close> of \<^verbatim>\<open>BaseTDLearningQ.__init__\<close>.\<close>

definition td_error_func_Q ::
  "extern \<Rightarrow> (q_target_params \<Rightarrow> q_target_state \<Rightarrow> prng_key \<Rightarrow> transition_batch \<Rightarrow> ndarray)
    \<Rightarrow> q_engine \<Rightarrow> ptree \<Rightarrow> q_target_params \<Rightarrow> ptree \<Rightarrow> q_target_state \<Rightarrow> prng_key
    \<Rightarrow> transition_batch \<Rightarrow> error + ndarray" where
  "td_error_func_Q lib target_func self params target_params state target_state rng transition_batch =
     (let rngs = rng;
          S = batch_S transition_batch;
          A = q_action_preprocessor (self_f self) (batch_A transition_batch);
          (k1, rngs) = next_rng lib rngs;
          G = target_func target_params target_state k1 transition_batch;
          (k2, rngs) = next_rng lib rngs;
          (Q, _) = q_function_type1 (self_f self) params state k2 S A False
      in case self_policy_regularizer self of
           None \<Rightarrow>
             (let dL_dQ = jax_grad_argnums1 lib (self_loss_function self)
              in Inr (jnp_negative lib (dL_dQ G Q)))
         | Some pr \<Rightarrow>
             (let (k3, rngs) = next_rng lib rngs;
                  (dist_params, _) =
                     pi_function (reg_pi pr) (qtp_reg_pi target_params)
                       (qts_reg_pi target_state) k3 S False
              in case qtp_reg_hparams target_params of
                   PDict kwargs \<Rightarrow>
                     (let reg = reg_function pr dist_params kwargs
                      in if shape reg \<noteq> shape G then Inl (AssertionError ''bad shape'')
                         else (let G = jnp_add lib G (jnp_negative lib reg);
                                   dL_dQ = jax_grad_argnums1 lib (self_loss_function self)
                               in Inr (jnp_negative lib (dL_dQ G Q))))
                 | _ \<Rightarrow> Inl (TypeError ''argument after ** must be a mapping'')))"

text \<open>
  The closure \<^verbatim>\<open>apply_grads_func\<close> of \<^verbatim>\<open>BaseTDLearningQ.__init__\<close>, which replaces
  the base class's: \<^verbatim>\<open>opt.update\<close> is called without \<^verbatim>\<open>params\<close>.
\<close>

definition apply_grads_func_Q ::
  "extern \<Rightarrow> optimizer \<Rightarrow> ptree \<Rightarrow> ptree \<Rightarrow> ptree \<Rightarrow> ptree \<times> ptree" where
  "apply_grads_func_Q lib opt opt_state params grads =
     (let (updates, new_opt_state) = opt_update opt grads opt_state None;
          new_params = optax_apply_updates lib params updates
      in (new_opt_state, new_params))"

definition BaseTDLearningQ_class ::
  "extern \<Rightarrow> string
    \<Rightarrow> (q_target_params \<Rightarrow> q_target_state \<Rightarrow> prng_key \<Rightarrow> transition_batch \<Rightarrow> ndarray)
    \<Rightarrow> (unit q_approx_ext, q_target_params, q_target_state) td_class" where
  "BaseTDLearningQ_class lib name target_func =
     \<lparr>cls_target_params = target_params_Q,
      cls_target_function_state = target_function_state_Q,
      cls_apply_grads_func = apply_grads_func_Q lib,
      cls_grads_and_metrics_func = grads_and_metrics_func_Q lib name target_func,
      cls_td_error_func = td_error_func_Q lib target_func\<rparr>"

text \<open>\<^verbatim>\<open>BaseTDLearningQ.__init__\<close>: the two type checks, then the base constructor.\<close>

definition BaseTDLearningQ_init ::
  "extern \<Rightarrow> pyobj \<Rightarrow> pyobj \<Rightarrow> optimizer option \<Rightarrow> (ndarray \<Rightarrow> ndarray \<Rightarrow> ndarray) option
    \<Rightarrow> pyobj \<Rightarrow> (error + q_engine) \<times> ptree list" where
  "BaseTDLearningQ_init lib q q_targ optimizer loss_function policy_regularizer =
     (case q of
        PyQ q' \<Rightarrow>
          (case (case q_targ of
                   PyQ t \<Rightarrow> Inr (Some (TargObj t))
                 | PyNone \<Rightarrow> Inr None
                 | PyList ts \<Rightarrow> Inr (Some (TargList ts))
                 | PyTuple ts \<Rightarrow> Inr (Some (TargTuple ts))
                 | _ \<Rightarrow> Inl (TypeError ''q_targ must be a coax.Q or None'')) of
             Inl e \<Rightarrow> (Inl e, [])
           | Inr q_targ' \<Rightarrow>
               BaseTDLearning_init lib q' q_targ' optimizer loss_function policy_regularizer)
      | _ \<Rightarrow> (Inl (TypeError ''q must be a coax.Q''), []))"

section \<open>A small instance of the library, and worked inputs\<close>

text \<open>
  The theorems below hold for every instance of the library functions. The worked inputs
  need one instance; it computes with the special values as IEEE arithmetic does and
  exactly on the reals.
\<close>

fun fneg :: "fval \<Rightarrow> fval" where
  "fneg (Fin x) = Fin (- x)"
| "fneg PosInf = NegInf"
| "fneg NegInf = PosInf"
| "fneg NaN = NaN"

fun fadd :: "fval \<Rightarrow> fval \<Rightarrow> fval" where
  "fadd (Fin x) (Fin y) = Fin (x + y)"
| "fadd NaN _ = NaN"
| "fadd _ NaN = NaN"
| "fadd PosInf NegInf = NaN"
| "fadd NegInf PosInf = NaN"
| "fadd PosInf _ = PosInf"
| "fadd _ PosInf = PosInf"
| "fadd NegInf _ = NegInf"
| "fadd _ NegInf = NegInf"

fun fsign :: "fval \<Rightarrow> int" where
  "fsign (Fin x) = (if x < 0 then - 1 else if x = 0 then 0 else 1)"
| "fsign PosInf = 1"
| "fsign NegInf = - 1"
| "fsign NaN = 0"

definition fmul :: "fval \<Rightarrow> fval \<Rightarrow> fval" where
  "fmul a b =
     (case (a, b) of
        (Fin x, Fin y) \<Rightarrow> Fin (x * y)
      | _ \<Rightarrow> if a = NaN \<or> b = NaN \<or> fsign a * fsign b = 0 then NaN
             else if fsign a * fsign b = 1 then PosInf else NegInf)"

fun fsqrt :: "fval \<Rightarrow> fval" where
  "fsqrt (Fin x) = (if x < 0 then NaN else Fin (sqrt x))"
| "fsqrt PosInf = PosInf"
| "fsqrt NegInf = NaN"
| "fsqrt NaN = NaN"

text \<open>Elementwise operations on arrays of one shape, and the mean over all elements.\<close>

definition ew1 :: "(fval \<Rightarrow> fval) \<Rightarrow> ndarray \<Rightarrow> ndarray" where
  "ew1 f a = \<lparr>shape = shape a, data = map f (data a)\<rparr>"

definition ew2 :: "(fval \<Rightarrow> fval \<Rightarrow> fval) \<Rightarrow> ndarray \<Rightarrow> ndarray \<Rightarrow> ndarray" where
  "ew2 f a b = \<lparr>shape = shape a, data = map2 f (data a) (data b)\<rparr>"

definition scalar :: "fval \<Rightarrow> ndarray" where
  "scalar x = \<lparr>shape = [], data = [x]\<rparr>"

definition vec :: "real list \<Rightarrow> ndarray" where
  "vec xs = \<lparr>shape = [length xs], data = map Fin xs\<rparr>"

definition arr_sub :: "ndarray \<Rightarrow> ndarray \<Rightarrow> ndarray" where
  "arr_sub a b = ew2 fadd a (ew1 fneg b)"

definition arr_mean :: "ndarray \<Rightarrow> ndarray" where
  "arr_mean a =
     scalar (if data a = [] then NaN
             else fmul (foldr fadd (data a) (Fin 0)) (Fin (1 / real (length (data a)))))"

text \<open>Combining two trees of one structure leaf by leaf.\<close>

function (sequential) tree_map2 ::
  "('a \<Rightarrow> 'a \<Rightarrow> 'a) \<Rightarrow> 'a pytree \<Rightarrow> 'a pytree \<Rightarrow> 'a pytree" where
  "tree_map2 f (Leaf a) (Leaf b) = Leaf (f a b)"
| "tree_map2 f (PTuple ts) (PTuple us) = PTuple (map (\<lambda>(t, u). tree_map2 f t u) (zip ts us))"
| "tree_map2 f (PList ts) (PList us) = PList (map (\<lambda>(t, u). tree_map2 f t u) (zip ts us))"
| "tree_map2 f (PNamedTuple c ts) (PNamedTuple d us) =
     PNamedTuple c (map (\<lambda>(t, u). tree_map2 f t u) (zip ts us))"
| "tree_map2 f (PDict kts) (PDict kus) =
     PDict (map (\<lambda>(kt, ku). (fst kt, tree_map2 f (snd kt) (snd ku))) (zip kts kus))"
| "tree_map2 f t u = t"
  by pat_completeness auto
termination
proof (relation "measure (\<lambda>(f, t, u). size t)", goal_cases)
  case 1
  show ?case by simp
next
  case (2 f ts us z t u)
  then have "t \<in> set ts" by (auto dest: set_zip_leftD)
  then have "size t \<le> size_list size ts" by (rule size_list_estimation') simp
  then show ?case by simp
next
  case (3 f ts us z t u)
  then have "t \<in> set ts" by (auto dest: set_zip_leftD)
  then have "size t \<le> size_list size ts" by (rule size_list_estimation') simp
  then show ?case by simp
next
  case (4 f c ts d us z t u)
  then have "t \<in> set ts" by (auto dest: set_zip_leftD)
  then have "size t \<le> size_list size ts" by (rule size_list_estimation') simp
  then show ?case by simp
next
  case (5 f kts kus z kt ku)
  then have "kt \<in> set kts" by (auto dest: set_zip_leftD)
  moreover have "size (snd kt) \<le> size_prod (\<lambda>x. 0) size kt" by (cases kt) simp
  ultimately have "size (snd kt) \<le> size_list (size_prod (\<lambda>x. 0) size) kts"
    by (rule size_list_estimation')
  then show ?case by simp
qed

text \<open>
  The mean of the squared residuals, the squared-error loss of the specification's
  scenario (targets 1, 2, 3, 4 and predictions 0 give the loss 7.5), and its gradient
  with respect to the predictions.
\<close>

definition mse :: "ndarray \<Rightarrow> ndarray \<Rightarrow> ndarray" where
  "mse y_true y_pred = arr_mean (ew1 (\<lambda>d. fmul d d) (arr_sub y_pred y_true))"

definition mse_grad :: "ndarray \<Rightarrow> ndarray \<Rightarrow> ndarray" where
  "mse_grad y_true y_pred =
     ew1 (fmul (Fin (2 / real (length (data y_pred))))) (arr_sub y_pred y_true)"

text \<open>
  Three optimizers with learning rate 1: gradient descent, which ignores \<^verbatim>\<open>params\<close>;
  gradient descent with decoupled weight decay, which adds the parameters to the gradients
  when it is given them; gradient descent with momentum, whose state holds one
  accumulator per parameter.
\<close>

definition plain_sgd :: optimizer where
  "plain_sgd =
     \<lparr>opt_init = (\<lambda>p. PTuple []),
      opt_update = (\<lambda>g s p. (map_pytree (ew1 fneg) g, s))\<rparr>"

definition decay_sgd :: optimizer where
  "decay_sgd =
     \<lparr>opt_init = (\<lambda>p. PTuple []),
      opt_update = (\<lambda>g s p.
        case p of
          None \<Rightarrow> (map_pytree (ew1 fneg) g, s)
        | Some ps \<Rightarrow> (map_pytree (ew1 fneg) (tree_map2 (ew2 fadd) g ps), s))\<rparr>"

definition momentum_sgd :: optimizer where
  "momentum_sgd =
     \<lparr>opt_init = (\<lambda>p. PTuple [map_pytree (ew1 (\<lambda>_. Fin 0)) p]),
      opt_update = (\<lambda>g s p.
        case s of
          PTuple [m] \<Rightarrow>
            (let m' = tree_map2 (ew2 fadd) m g in (map_pytree (ew1 fneg) m', PTuple [m']))
        | _ \<Rightarrow> (map_pytree (ew1 fneg) g, s))\<rparr>"

text \<open>
  The scenario of the specification: a state-value function linear in one weight \<open>w\<close>,
  \<open>w = 0\<close>, a batch of four transitions with \<open>S = [1, 1, 1, 1]\<close>, and a target function
  that returns the targets \<open>[1, 2, 3, 4]\<close> stored in the batch. Two more batches: one
  whose first target is \<open>+\<infinity>\<close>, one whose first state is \<open>+\<infinity>\<close>, so that the first
  prediction \<open>0 \<cdot> \<infinity>\<close> is a NaN.
\<close>

definition linear_v ::
  "ptree \<Rightarrow> ptree \<Rightarrow> prng_key \<Rightarrow> ndarray \<Rightarrow> bool \<Rightarrow> ndarray \<times> ptree" where
  "linear_v params state rng S is_training =
     (case params of
        Leaf w \<Rightarrow> (case data w of [c] \<Rightarrow> (ew1 (fmul c) S, state) | _ \<Rightarrow> (S, state))
      | _ \<Rightarrow> (S, state))"

definition ex_v :: v_approx where
  "ex_v = \<lparr>f_params = Leaf (scalar (Fin 0)), f_function_state = PNone, f_random_key = 0,
           v_function = linear_v\<rparr>"

definition ex_q :: q_approx where
  "ex_q = \<lparr>f_params = Leaf (scalar (Fin 0)), f_function_state = PNone, f_random_key = 0,
           q_function_type1 = (\<lambda>params state rng S A is_training.
              linear_v params state rng S is_training),
           q_action_preprocessor = (\<lambda>A. A)\<rparr>"

definition ex_batch :: transition_batch where
  "ex_batch = \<lparr>batch_S = vec [1, 1, 1, 1], batch_A = vec [0, 0, 0, 0],
               batch_rest = [vec [1, 2, 3, 4]]\<rparr>"

definition ex_batch_inf :: transition_batch where
  "ex_batch_inf =
     \<lparr>batch_S = vec [1, 1, 1, 1], batch_A = vec [0, 0, 0, 0],
      batch_rest = [\<lparr>shape = [4], data = [PosInf, Fin 2, Fin 3, Fin 4]\<rparr>]\<rparr>"

definition ex_batch_nan :: transition_batch where
  "ex_batch_nan =
     \<lparr>batch_S = \<lparr>shape = [4], data = [PosInf, Fin 1, Fin 1, Fin 1]\<rparr>,
      batch_A = vec [0, 0, 0, 0], batch_rest = [vec [1, 2, 3, 4]]\<rparr>"

definition ex_target_func :: "'tp \<Rightarrow> 'ts \<Rightarrow> prng_key \<Rightarrow> transition_batch \<Rightarrow> ndarray" where
  "ex_target_func target_params target_state rng transition_batch =
     (case batch_rest transition_batch of r # _ \<Rightarrow> r | [] \<Rightarrow> batch_S transition_batch)"

definition ex_engine :: v_engine where
  "ex_engine =
     \<lparr>self_f = ex_v, self_f_targ = TargIsOnline, self_loss_function = mse,
      self_policy_regularizer = None, self_optimizer = plain_sgd,
      self_optimizer_state = PTuple []\<rparr>"

text \<open>
  The gradient of the scenario's loss with respect to the weight, as reverse-mode
  differentiation computes it on a batch: the mean over the batch of
  \<open>2 \<cdot> (V - G) \<cdot> S\<close>, where \<open>V\<close> is the prediction and \<open>G\<close> the target.
\<close>

definition linear_mse_grad :: "transition_batch \<Rightarrow> ptree \<Rightarrow> ptree" where
  "linear_mse_grad transition_batch params =
     (let S = batch_S transition_batch;
          G = ex_target_func () () 0 transition_batch;
          V = fst (linear_v params PNone 0 S True)
      in Leaf (arr_mean (ew2 fmul (ew1 (fmul (Fin 2)) (arr_sub V G)) S)))"

text \<open>
  The library instance for a learner of the scenario on the batch \<open>b\<close>. Automatic
  differentiation is given by the two gradients above: \<^verbatim>\<open>jax.grad\<close> of the loss closure
  is \<open>linear_mse_grad b\<close>, and \<^verbatim>\<open>jax.grad(..., argnums=1)\<close> is the gradient of \<open>mse\<close>,
  the only loss function of the worked inputs; both are proved below to be the
  derivatives on finite arrays. The two defaults are not used by the worked inputs.
\<close>

definition example_lib :: "transition_batch \<Rightarrow> extern" where
  "example_lib b =
     \<lparr>optax_apply_updates = tree_map2 (ew2 fadd),
      optax_adam = plain_sgd,
      huber = mse,
      jax_grad = (\<lambda>_. linear_mse_grad b),
      jax_grad_argnums1 = (\<lambda>_. mse_grad),
      next_rng = (\<lambda>k. (2 * k + 1, 2 * k + 2)),
      jax_random_split = (\<lambda>k. (2 * k + 1, 2 * k + 2)),
      jnp_add = ew2 fadd,
      jnp_subtract = arr_sub,
      jnp_negative = ew1 fneg,
      jnp_mean = arr_mean,
      jnp_sqrt = ew1 fsqrt,
      jnp_square = ew1 (\<lambda>d. fmul d d),
      get_grads_diagnostics = (\<lambda>_ _. Map.empty)\<rparr>"

text \<open>
  The metrics of the three batches. In the scenario: the loss 7.5, the mean and the root
  mean square of the residuals \<open>V - G\<close>, and no difference between the target network and
  the online one.
\<close>

definition ex_metrics :: "string \<Rightarrow> metrics" where
  "ex_metrics name =
     [name @ ''/loss'' \<mapsto> scalar (Fin (15 / 2)),
      name @ ''/bias'' \<mapsto> scalar (Fin (- (5 / 2))),
      name @ ''/rmse'' \<mapsto> scalar (Fin (sqrt (15 / 2))),
      name @ ''/bias_targ'' \<mapsto> scalar (Fin 0),
      name @ ''/rmse_targ'' \<mapsto> scalar (Fin 0)]"

definition ex_metrics_inf :: "string \<Rightarrow> metrics" where
  "ex_metrics_inf name =
     [name @ ''/loss'' \<mapsto> scalar PosInf,
      name @ ''/bias'' \<mapsto> scalar NegInf,
      name @ ''/rmse'' \<mapsto> scalar PosInf,
      name @ ''/bias_targ'' \<mapsto> scalar (Fin 0),
      name @ ''/rmse_targ'' \<mapsto> scalar (Fin 0)]"

definition ex_metrics_nan :: "string \<Rightarrow> metrics" where
  "ex_metrics_nan name =
     [name @ ''/loss'' \<mapsto> scalar NaN,
      name @ ''/bias'' \<mapsto> scalar NaN,
      name @ ''/rmse'' \<mapsto> scalar NaN,
      name @ ''/bias_targ'' \<mapsto> scalar NaN,
      name @ ''/rmse_targ'' \<mapsto> scalar NaN]"

text \<open>
  The engine of the scenario after a call has read \<^verbatim>\<open>rng\<close> once: the key 0 has
  been split into 1 and 2, and 1 is the new key.
\<close>

definition ex_engine_read :: v_engine where
  "ex_engine_read = ex_engine\<lparr>self_f := ex_v\<lparr>f_random_key := 1\<rparr>\<rparr>"

text \<open>
  Two policy regularizers over one policy, with the hyperparameter \<open>beta = 1\<close>: the first
  returns \<open>beta\<close> times one value per transition, the second a single scalar.
\<close>

definition ex_pi :: policy where
  "ex_pi = \<lparr>f_params = PNone, f_function_state = PNone, f_random_key = 0,
            pi_function = (\<lambda>params state rng S is_training. (Leaf S, state))\<rparr>"

definition ex_hyperparams :: ptree where
  "ex_hyperparams = PDict [(''beta'', Leaf (scalar (Fin 1)))]"

definition ex_reg :: policy_regularizer where
  "ex_reg = \<lparr>reg_pi = ex_pi,
             reg_function = (\<lambda>dist_params kwargs.
                case (dist_params, map_of kwargs ''beta'') of
                  (Leaf a, Some (Leaf beta)) \<Rightarrow>
                     (case data beta of [c] \<Rightarrow> ew1 (fmul c) a | _ \<Rightarrow> a)
                | _ \<Rightarrow> scalar (Fin 0)),
             reg_hyperparams = ex_hyperparams\<rparr>"

definition ex_reg_scalar :: policy_regularizer where
  "ex_reg_scalar = \<lparr>reg_pi = ex_pi,
                    reg_function = (\<lambda>dist_params kwargs. scalar (Fin 1)),
                    reg_hyperparams = ex_hyperparams\<rparr>"

text \<open>
  The target dicts of the scenario's engine without a regularizer, where the entry
  \<^verbatim>\<open>reg_hparams\<close> is \<^verbatim>\<open>None\<close>, and the target parameters with a regularizer.
\<close>

definition ex_tp :: v_target_params where
  "ex_tp = \<lparr>vtp_v = Leaf (scalar (Fin 0)), vtp_v_targ = Leaf (scalar (Fin 0)),
            vtp_reg_pi = PNone, vtp_reg_hparams = PNone\<rparr>"

definition ex_tp_reg :: v_target_params where
  "ex_tp_reg = \<lparr>vtp_v = Leaf (scalar (Fin 0)), vtp_v_targ = Leaf (scalar (Fin 0)),
                vtp_reg_pi = PNone, vtp_reg_hparams = ex_hyperparams\<rparr>"

definition ex_ts :: v_target_state where
  "ex_ts = \<lparr>vts_v = PNone, vts_v_targ = PNone, vts_reg_pi = PNone\<rparr>"

text \<open>
  The same learner later in training: another optimizer with a state of its own, and a
  target network that is a separate object with the same parameters.
\<close>

definition ex_engine_later :: v_engine where
  "ex_engine_later =
     \<lparr>self_f = ex_v, self_f_targ = TargObj ex_v, self_loss_function = mse,
      self_policy_regularizer = None, self_optimizer = momentum_sgd,
      self_optimizer_state = PTuple [Leaf (scalar (Fin 3))]\<rparr>"

text \<open>
  A target network whose prediction is the array held in its function state, where it
  has one; a V-learner and a Q-learner with such a target network, whose own state holds
  \<open>[9, 9, 9, 9]\<close>; and their target dicts.
\<close>

definition state_v ::
  "ptree \<Rightarrow> ptree \<Rightarrow> prng_key \<Rightarrow> ndarray \<Rightarrow> bool \<Rightarrow> ndarray \<times> ptree" where
  "state_v params state rng S is_training =
     (case state of Leaf a \<Rightarrow> (a, state) | _ \<Rightarrow> (S, state))"

definition ex_v_targ :: v_approx where
  "ex_v_targ = \<lparr>f_params = PNone, f_function_state = Leaf (vec [9, 9, 9, 9]),
                f_random_key = 0, v_function = state_v\<rparr>"

definition ex_q_targ :: q_approx where
  "ex_q_targ = \<lparr>f_params = PNone, f_function_state = Leaf (vec [9, 9, 9, 9]),
                f_random_key = 0,
                q_function_type1 = (\<lambda>params state rng S A is_training.
                   state_v params state rng S is_training),
                q_action_preprocessor = (\<lambda>A. A)\<rparr>"

definition ex_engine_Q :: q_engine where
  "ex_engine_Q =
     \<lparr>self_f = ex_q, self_f_targ = TargObj ex_q_targ, self_loss_function = mse,
      self_policy_regularizer = None, self_optimizer = plain_sgd,
      self_optimizer_state = PTuple []\<rparr>"

definition ex_engine_V :: v_engine where
  "ex_engine_V = ex_engine\<lparr>self_f_targ := TargObj ex_v_targ\<rparr>"

definition ex_tp_V :: v_target_params where
  "ex_tp_V = \<lparr>vtp_v = Leaf (scalar (Fin 0)), vtp_v_targ = PNone,
              vtp_reg_pi = PNone, vtp_reg_hparams = PNone\<rparr>"

definition ex_ts_V :: v_target_state where
  "ex_ts_V = \<lparr>vts_v = PNone, vts_v_targ = Leaf (vec [9, 9, 9, 9]), vts_reg_pi = PNone\<rparr>"

definition ex_tp_Q :: q_target_params where
  "ex_tp_Q = \<lparr>qtp_q = Leaf (scalar (Fin 0)), qtp_q_targ = PNone,
              qtp_reg_pi = PNone, qtp_reg_hparams = PNone\<rparr>"

definition ex_ts_Q :: q_target_state where
  "ex_ts_Q = \<lparr>qts_q = PNone, qts_q_targ = Leaf (vec [9, 9, 9, 9]), qts_reg_pi = PNone\<rparr>"

text \<open>
  Predicates and functions used to state the properties: a finite array element, the
  dynamic types, and the real value of a finite array element, of a one-element array
  and of a tree that is one such array.
\<close>

definition fval_isfinite :: "fval \<Rightarrow> bool" where
  "fval_isfinite x = (case x of Fin _ \<Rightarrow> True | _ \<Rightarrow> False)"

fun isinstance_V :: "pyobj \<Rightarrow> bool" where
  "isinstance_V (PyV _) = True"
| "isinstance_V _ = False"

fun isinstance_Q :: "pyobj \<Rightarrow> bool" where
  "isinstance_Q (PyQ _) = True"
| "isinstance_Q _ = False"

definition fin_val :: "fval \<Rightarrow> real" where
  "fin_val x = (case x of Fin r \<Rightarrow> r | _ \<Rightarrow> 0)"

definition item :: "ndarray \<Rightarrow> real" where
  "item a = (case data a of [x] \<Rightarrow> fin_val x | _ \<Rightarrow> 0)"

definition leaf_item :: "ptree \<Rightarrow> real" where
  "leaf_item t = (case t of Leaf a \<Rightarrow> item a | _ \<Rightarrow> 0)"


section \<open>Properties\<close>

subsection \<open>Evaluating the worked inputs\<close>

lemma fmul_Fin: "fmul (Fin x) (Fin y) = Fin (x * y)"
  by (simp add: fmul_def)

lemma example_lib_sel:
  "optax_apply_updates (example_lib b) = tree_map2 (ew2 fadd)"
  "jax_grad (example_lib b) = (\<lambda>_. linear_mse_grad b)"
  "jax_grad_argnums1 (example_lib b) = (\<lambda>_. mse_grad)"
  "next_rng (example_lib b) = (\<lambda>k. (2 * k + 1, 2 * k + 2))"
  "jax_random_split (example_lib b) = (\<lambda>k. (2 * k + 1, 2 * k + 2))"
  "jnp_add (example_lib b) = ew2 fadd"
  "jnp_subtract (example_lib b) = arr_sub"
  "jnp_negative (example_lib b) = ew1 fneg"
  "jnp_mean (example_lib b) = arr_mean"
  "jnp_sqrt (example_lib b) = ew1 fsqrt"
  "jnp_square (example_lib b) = ew1 (\<lambda>d. fmul d d)"
  "get_grads_diagnostics (example_lib b) = (\<lambda>_ _. Map.empty)"
  by (simp_all add: example_lib_def)

lemma ex_engine_sel:
  "self_f ex_engine = ex_v"
  "self_f_targ ex_engine = TargIsOnline"
  "self_loss_function ex_engine = mse"
  "self_policy_regularizer ex_engine = None"
  "self_optimizer ex_engine = plain_sgd"
  "self_optimizer_state ex_engine = PTuple []"
  by (simp_all add: ex_engine_def)

lemma ex_v_sel:
  "f_params ex_v = Leaf (scalar (Fin 0))"
  "f_function_state ex_v = PNone"
  "f_random_key ex_v = 0"
  "v_function ex_v = linear_v"
  by (simp_all add: ex_v_def)

lemma linear_v_state:
  "linear_v params st k S tr = (fst (linear_v params PNone 0 S True), st)"
  by (simp add: linear_v_def split: pytree.splits list.splits)

text \<open>The targets, the predictions and the gradients of the three batches.\<close>

lemma ex_target:
  "ex_target_func tp ts k ex_batch = vec [1, 2, 3, 4]"
  "ex_target_func tp ts k ex_batch_nan = vec [1, 2, 3, 4]"
  "ex_target_func tp ts k ex_batch_inf = \<lparr>shape = [4], data = [PosInf, Fin 2, Fin 3, Fin 4]\<rparr>"
  by (simp_all add: ex_target_func_def ex_batch_def ex_batch_nan_def ex_batch_inf_def)

lemma ex_states:
  "batch_S ex_batch = vec [1, 1, 1, 1]"
  "batch_S ex_batch_inf = vec [1, 1, 1, 1]"
  "batch_S ex_batch_nan = \<lparr>shape = [4], data = [PosInf, Fin 1, Fin 1, Fin 1]\<rparr>"
  "batch_A ex_batch = vec [0, 0, 0, 0]"
  by (simp_all add: ex_batch_def ex_batch_nan_def ex_batch_inf_def)

lemma ex_prediction:
  "linear_v (Leaf (scalar (Fin 0))) st k (vec [1, 1, 1, 1]) tr = (vec [0, 0, 0, 0], st)"
  "linear_v (Leaf (scalar (Fin 0))) st k \<lparr>shape = [4], data = [PosInf, Fin 1, Fin 1, Fin 1]\<rparr> tr
     = (\<lparr>shape = [4], data = [NaN, Fin 0, Fin 0, Fin 0]\<rparr>, st)"
  by (simp_all add: linear_v_def scalar_def vec_def ew1_def fmul_def)

lemma ex_mse:
  "mse (vec [1, 2, 3, 4]) (vec [0, 0, 0, 0]) = scalar (Fin (15 / 2))"
  "mse \<lparr>shape = [4], data = [PosInf, Fin 2, Fin 3, Fin 4]\<rparr> (vec [0, 0, 0, 0]) = scalar PosInf"
  "mse (vec [1, 2, 3, 4]) \<lparr>shape = [4], data = [NaN, Fin 0, Fin 0, Fin 0]\<rparr> = scalar NaN"
  by (simp_all add: mse_def arr_mean_def arr_sub_def ew1_def ew2_def vec_def fmul_def)

lemma ex_grads:
  "linear_mse_grad ex_batch (Leaf (scalar (Fin 0))) = Leaf (scalar (Fin (- 5)))"
  "linear_mse_grad ex_batch_inf (Leaf (scalar (Fin 0))) = Leaf (scalar NegInf)"
  "linear_mse_grad ex_batch_nan (Leaf (scalar (Fin 0))) = Leaf (scalar NaN)"
  by (simp_all add: linear_mse_grad_def ex_target ex_states ex_prediction Let_def)
     (simp_all add: arr_mean_def arr_sub_def ew1_def ew2_def vec_def fmul_def)

lemma scenario_loss_func:
  assumes "v_function (self_f e) = linear_v"
    and "self_policy_regularizer e = None"
    and "self_loss_function e = mse"
  shows "loss_func_V (example_lib b') ex_target_func e params tp st ts k b =
     Inr (mse (ex_target_func () () 0 b) (fst (linear_v params PNone 0 (batch_S b) True)),
          (mse (ex_target_func () () 0 b) (fst (linear_v params PNone 0 (batch_S b) True)),
           ex_target_func () () 0 b, fst (linear_v params PNone 0 (batch_S b) True),
           batch_S b, st))"
proof -
  have t: "ex_target_func tp ts k' b = ex_target_func () () 0 b" for k'
    by (simp add: ex_target_func_def)
  show ?thesis
    using linear_v_state [of params st _ "batch_S b" True]
    by (simp add: loss_func_V_def assms example_lib_sel Let_def t)
qed

lemma scenario_arith:
  "arr_mean (arr_sub (vec [0, 0, 0, 0]) (vec [1, 2, 3, 4])) = scalar (Fin (- (5 / 2)))"
  "arr_mean (arr_sub (vec [0, 0, 0, 0]) (vec [0, 0, 0, 0])) = scalar (Fin 0)"
  "ew1 fsqrt (arr_mean (ew1 (\<lambda>d. fmul d d) (arr_sub (vec [0, 0, 0, 0]) (vec [1, 2, 3, 4]))))
     = scalar (Fin (sqrt (15 / 2)))"
  "ew1 fsqrt (arr_mean (ew1 (\<lambda>d. fmul d d) (arr_sub (vec [0, 0, 0, 0]) (vec [0, 0, 0, 0]))))
     = scalar (Fin 0)"
  "arr_mean (arr_sub (vec [0, 0, 0, 0]) \<lparr>shape = [4], data = [PosInf, Fin 2, Fin 3, Fin 4]\<rparr>)
     = scalar NegInf"
  "ew1 fsqrt (arr_mean (ew1 (\<lambda>d. fmul d d)
      (arr_sub (vec [0, 0, 0, 0]) \<lparr>shape = [4], data = [PosInf, Fin 2, Fin 3, Fin 4]\<rparr>)))
     = scalar PosInf"
  "arr_mean (arr_sub \<lparr>shape = [4], data = [NaN, Fin 0, Fin 0, Fin 0]\<rparr> (vec [1, 2, 3, 4]))
     = scalar NaN"
  "ew1 fsqrt (arr_mean (ew1 (\<lambda>d. fmul d d)
      (arr_sub \<lparr>shape = [4], data = [NaN, Fin 0, Fin 0, Fin 0]\<rparr> (vec [1, 2, 3, 4]))))
     = scalar NaN"
  "arr_mean (arr_sub \<lparr>shape = [4], data = [NaN, Fin 0, Fin 0, Fin 0]\<rparr>
      \<lparr>shape = [4], data = [NaN, Fin 0, Fin 0, Fin 0]\<rparr>) = scalar NaN"
  "ew1 fsqrt (arr_mean (ew1 (\<lambda>d. fmul d d)
      (arr_sub \<lparr>shape = [4], data = [NaN, Fin 0, Fin 0, Fin 0]\<rparr>
         \<lparr>shape = [4], data = [NaN, Fin 0, Fin 0, Fin 0]\<rparr>))) = scalar NaN"
  by (simp_all add: arr_mean_def arr_sub_def ew1_def ew2_def vec_def fmul_def scalar_def)

lemma scenario_grads_and_metrics_func:
  assumes "v_function (self_f e) = linear_v"
    and "self_policy_regularizer e = None"
    and "self_loss_function e = mse"
    and "f_targ_obj e = Inr t"
    and "v_function t = linear_v"
    and "vtp_v_targ tp = Leaf (scalar (Fin 0))"
  shows "grads_and_metrics_func_V (example_lib ex_batch) name ex_target_func e
           (Leaf (scalar (Fin 0))) tp st ts k ex_batch
         = Inr (Leaf (scalar (Fin (- 5))), st, ex_metrics name)"
    and "grads_and_metrics_func_V (example_lib ex_batch_inf) name ex_target_func e
           (Leaf (scalar (Fin 0))) tp st ts k ex_batch_inf
         = Inr (Leaf (scalar NegInf), st, ex_metrics_inf name)"
    and "grads_and_metrics_func_V (example_lib ex_batch_nan) name ex_target_func e
           (Leaf (scalar (Fin 0))) tp st ts k ex_batch_nan
         = Inr (Leaf (scalar NaN), st, ex_metrics_nan name)"
  using linear_v_state [of "Leaf (scalar (Fin 0))" st _ _ False]
  by (simp_all add: grads_and_metrics_func_V_def scenario_loss_func [OF assms(1-3)] assms(4-6)
      example_lib_sel ex_grads ex_target ex_states ex_prediction ex_mse scenario_arith
      ex_metrics_def ex_metrics_inf_def ex_metrics_nan_def Let_def)

lemma ex_engine_targets:
  "target_params_V ex_engine = Inr ex_tp"
  "target_function_state_V ex_engine = Inr ex_ts"
  "f_targ_obj ex_engine = Inr ex_v"
  by (simp_all add: target_params_V_def target_function_state_V_def f_targ_obj_def
      ex_engine_sel ex_v_sel ex_tp_def ex_ts_def reg_pi_params_def reg_hparams_def
      reg_pi_function_state_def)

lemma ex_read_rng: "read_rng (example_lib b) ex_v = (2, ex_v\<lparr>f_random_key := 1\<rparr>)"
  by (simp add: read_rng_def example_lib_sel ex_v_sel)

lemma ex_engine_read_sel:
  "self_f ex_engine_read = ex_v\<lparr>f_random_key := 1\<rparr>"
  "self_f_targ ex_engine_read = TargIsOnline"
  "self_loss_function ex_engine_read = mse"
  "self_policy_regularizer ex_engine_read = None"
  "self_optimizer ex_engine_read = plain_sgd"
  "self_optimizer_state ex_engine_read = PTuple []"
  "f_targ_obj ex_engine_read = Inr (ex_v\<lparr>f_random_key := 1\<rparr>)"
  by (simp_all add: ex_engine_read_def ex_engine_def f_targ_obj_def)

lemma ex_grads_and_metrics:
  "grads_and_metrics (example_lib ex_batch) (BaseTDLearningV_class (example_lib ex_batch) name ex_target_func)
     ex_engine ex_batch
   = (Inr (Leaf (scalar (Fin (- 5))), PNone, ex_metrics name), ex_engine_read)"
  "grads_and_metrics (example_lib ex_batch_inf)
     (BaseTDLearningV_class (example_lib ex_batch_inf) name ex_target_func) ex_engine ex_batch_inf
   = (Inr (Leaf (scalar NegInf), PNone, ex_metrics_inf name), ex_engine_read)"
  "grads_and_metrics (example_lib ex_batch_nan)
     (BaseTDLearningV_class (example_lib ex_batch_nan) name ex_target_func) ex_engine ex_batch_nan
   = (Inr (Leaf (scalar NaN), PNone, ex_metrics_nan name), ex_engine_read)"
proof -
  have g: "v_function (self_f ex_engine_read) = linear_v"
      "self_policy_regularizer ex_engine_read = None"
      "self_loss_function ex_engine_read = mse"
      "f_targ_obj ex_engine_read = Inr (ex_v\<lparr>f_random_key := 1\<rparr>)"
      "v_function (ex_v\<lparr>f_random_key := 1\<rparr>) = linear_v"
      "vtp_v_targ ex_tp = Leaf (scalar (Fin 0))"
    by (simp_all add: ex_engine_read_sel ex_v_sel ex_tp_def)
  have r: "ex_engine\<lparr>self_f := ex_v\<lparr>f_random_key := Suc 0\<rparr>\<rparr> = ex_engine_read"
    by (simp add: ex_engine_read_def)
  show "grads_and_metrics (example_lib ex_batch) (BaseTDLearningV_class (example_lib ex_batch) name ex_target_func)
     ex_engine ex_batch
   = (Inr (Leaf (scalar (Fin (- 5))), PNone, ex_metrics name), ex_engine_read)"
    by (simp add: grads_and_metrics_def BaseTDLearningV_class_def ex_engine_targets ex_engine_sel
        ex_v_sel ex_read_rng r Let_def scenario_grads_and_metrics_func(1) [OF g])
  show "grads_and_metrics (example_lib ex_batch_inf)
     (BaseTDLearningV_class (example_lib ex_batch_inf) name ex_target_func) ex_engine ex_batch_inf
   = (Inr (Leaf (scalar NegInf), PNone, ex_metrics_inf name), ex_engine_read)"
    by (simp add: grads_and_metrics_def BaseTDLearningV_class_def ex_engine_targets ex_engine_sel
        ex_v_sel ex_read_rng r Let_def scenario_grads_and_metrics_func(2) [OF g])
  show "grads_and_metrics (example_lib ex_batch_nan)
     (BaseTDLearningV_class (example_lib ex_batch_nan) name ex_target_func) ex_engine ex_batch_nan
   = (Inr (Leaf (scalar NaN), PNone, ex_metrics_nan name), ex_engine_read)"
    by (simp add: grads_and_metrics_def BaseTDLearningV_class_def ex_engine_targets ex_engine_sel
        ex_v_sel ex_read_rng r Let_def scenario_grads_and_metrics_func(3) [OF g])
qed

subsection \<open>The update\<close>

text \<open>The NaN test of \<^verbatim>\<open>update\<close>, on the leaves of the gradient tree.\<close>

lemma grads_have_nan_iff:
  "grads_have_nan grads \<longleftrightarrow> (\<exists>g \<in> set (tree_leaves grads). NaN \<in> set (data g))"
  by (auto simp: grads_have_nan_def jnp_any_def jnp_isnan_def list_ex_iff)

text \<open>A call of \<^verbatim>\<open>grads_and_metrics\<close> changes nothing of the engine but the online key.\<close>

lemma grads_and_metrics_frame:
  "snd (grads_and_metrics lib C self b)
   = self\<lparr>self_f := (self_f self)
            \<lparr>f_random_key := f_random_key (self_f (snd (grads_and_metrics lib C self b)))\<rparr>\<rparr>"
  by (simp add: grads_and_metrics_def read_rng_def Let_def case_prod_beta split: sum.splits)

lemma update_unfold:
  assumes "grads_and_metrics lib C self b = (Inr (grads, function_state, metrics), self1)"
  shows "update lib C self b =
     (if grads_have_nan grads then (Inl (RuntimeError grads), self1)
      else (Inr metrics,
              self1\<lparr>self_f := (self_f self1)
                      \<lparr>f_function_state := function_state,
                       f_params := snd (cls_apply_grads_func C (self_optimizer self1)
                                          (self_optimizer_state self1) (f_params (self_f self1)) grads)\<rparr>,
                   self_optimizer_state :=
                     fst (cls_apply_grads_func C (self_optimizer self1)
                            (self_optimizer_state self1) (f_params (self_f self1)) grads)\<rparr>))"
  by (simp add: update_def assms update_from_grads_def Let_def split: prod.splits)

text \<open>
  C1. Let \<^verbatim>\<open>grads_and_metrics\<close> have computed a gradient tree. The call has read the
  attribute \<^verbatim>\<open>rng\<close> of the online approximator, so the engine it leaves, \<open>self1\<close>, is
  the engine of before the call with the random key of the online approximator advanced.
  If some leaf of the tree contains a NaN, \<^verbatim>\<open>update\<close> raises the runtime error and
  the online parameters, the online function state and the optimizer state are those of
  before the call. Otherwise it stores the returned function state, stores the optimizer
  state and the parameters that the gradient-application closure computes from the
  optimizer, the optimizer state and the parameters of before the call, and returns the
  metrics.
\<close>

theorem update_nan_or_apply:
  assumes "grads_and_metrics lib C self transition_batch
             = (Inr (grads, function_state, metrics), self1)"
  shows "self1 = self\<lparr>self_f := (self_f self)\<lparr>f_random_key := f_random_key (self_f self1)\<rparr>\<rparr> \<and>
         ((\<exists>g \<in> set (tree_leaves grads). NaN \<in> set (data g)) \<longrightarrow>
           update lib C self transition_batch = (Inl (RuntimeError grads), self1) \<and>
           f_params (self_f self1) = f_params (self_f self) \<and>
           f_function_state (self_f self1) = f_function_state (self_f self) \<and>
           self_optimizer_state self1 = self_optimizer_state self) \<and>
         (\<not> (\<exists>g \<in> set (tree_leaves grads). NaN \<in> set (data g)) \<longrightarrow>
           update lib C self transition_batch =
             (Inr metrics,
              self1\<lparr>self_f := (self_f self1)
                      \<lparr>f_function_state := function_state,
                       f_params := snd (cls_apply_grads_func C (self_optimizer self)
                                          (self_optimizer_state self) (f_params (self_f self)) grads)\<rparr>,
                   self_optimizer_state :=
                     fst (cls_apply_grads_func C (self_optimizer self)
                            (self_optimizer_state self) (f_params (self_f self)) grads)\<rparr>))"
proof -
  have f: "self1 = self\<lparr>self_f := (self_f self)\<lparr>f_random_key := f_random_key (self_f self1)\<rparr>\<rparr>"
    using grads_and_metrics_frame [of lib C self transition_batch] assms by simp
  have s: "f_params (self_f self1) = f_params (self_f self)"
      "f_function_state (self_f self1) = f_function_state (self_f self)"
      "self_optimizer_state self1 = self_optimizer_state self"
      "self_optimizer self1 = self_optimizer self"
    by (subst f, simp)+
  show ?thesis
    using f by (simp add: update_unfold [OF assms] grads_have_nan_iff s)
qed

lemma ex_apply_grads:
  "cls_apply_grads_func (BaseTDLearningV_class (example_lib b) name tf) plain_sgd (PTuple [])
     (Leaf (scalar (Fin 0))) (Leaf (scalar x)) = (PTuple [], Leaf (scalar (fadd (Fin 0) (fneg x))))"
  by (simp add: BaseTDLearningV_class_def apply_grads_func_def example_lib_sel plain_sgd_def
      ew1_def ew2_def scalar_def)

lemma ex_update_applied:
  assumes "grads_and_metrics (example_lib b) (BaseTDLearningV_class (example_lib b) name ex_target_func)
             ex_engine b = (Inr (Leaf (scalar x), PNone, m), ex_engine_read)"
    and "NaN \<noteq> x"
  shows "update (example_lib b) (BaseTDLearningV_class (example_lib b) name ex_target_func)
           ex_engine b =
         (Inr m, ex_engine\<lparr>self_f := ex_v\<lparr>f_random_key := 1,
                                          f_params := Leaf (scalar (fadd (Fin 0) (fneg x)))\<rparr>\<rparr>)"
proof -
  have n: "\<not> grads_have_nan (Leaf (scalar x))"
    using assms(2) by (simp add: grads_have_nan_iff scalar_def)
  have p: "f_params (ex_v\<lparr>f_random_key := 1\<rparr>) = Leaf (scalar (Fin 0))"
    by (simp add: ex_v_def)
  have e: "ex_engine_read\<lparr>self_f := ex_v\<lparr>f_random_key := 1, f_function_state := PNone,
                                          f_params := y\<rparr>,
                         self_optimizer_state := PTuple []\<rparr>
           = ex_engine\<lparr>self_f := ex_v\<lparr>f_random_key := 1, f_params := y\<rparr>\<rparr>" for y
    by (simp add: ex_engine_read_def ex_engine_def ex_v_def)
  show ?thesis
    using e by (simp add: update_unfold [OF assms(1)] n ex_engine_read_sel p ex_v_sel ex_apply_grads)
qed

theorem update_nan_or_apply_witness:
  "grads_and_metrics (example_lib ex_batch_nan)
     (BaseTDLearningV_class (example_lib ex_batch_nan) ''V'' ex_target_func) ex_engine ex_batch_nan
     = (Inr (Leaf (scalar NaN), PNone, ex_metrics_nan ''V''), ex_engine_read) \<and>
   (\<exists>g \<in> set (tree_leaves (Leaf (scalar NaN))). NaN \<in> set (data g)) \<and>
   update (example_lib ex_batch_nan)
     (BaseTDLearningV_class (example_lib ex_batch_nan) ''V'' ex_target_func) ex_engine ex_batch_nan
     = (Inl (RuntimeError (Leaf (scalar NaN))), ex_engine_read) \<and>
   f_params (self_f ex_engine_read) = f_params (self_f ex_engine) \<and>
   f_function_state (self_f ex_engine_read) = f_function_state (self_f ex_engine) \<and>
   self_optimizer_state ex_engine_read = self_optimizer_state ex_engine \<and>
   grads_and_metrics (example_lib ex_batch)
     (BaseTDLearningV_class (example_lib ex_batch) ''V'' ex_target_func) ex_engine ex_batch
     = (Inr (Leaf (scalar (Fin (- 5))), PNone, ex_metrics ''V''), ex_engine_read) \<and>
   \<not> (\<exists>g \<in> set (tree_leaves (Leaf (scalar (Fin (- 5))))). NaN \<in> set (data g)) \<and>
   update (example_lib ex_batch)
     (BaseTDLearningV_class (example_lib ex_batch) ''V'' ex_target_func) ex_engine ex_batch
     = (Inr (ex_metrics ''V''),
        ex_engine\<lparr>self_f := ex_v\<lparr>f_random_key := 1, f_params := Leaf (scalar (Fin 5))\<rparr>\<rparr>)"
proof -
  note h1 = ex_grads_and_metrics(3) [of "''V''"]
  note h2 = ex_grads_and_metrics(1) [of "''V''"]
  have n1: "\<exists>g \<in> set (tree_leaves (Leaf (scalar NaN))). NaN \<in> set (data g)"
    by (simp add: scalar_def)
  have n2: "\<not> (\<exists>g \<in> set (tree_leaves (Leaf (scalar (Fin (- 5))))). NaN \<in> set (data g))"
    by (simp add: scalar_def)
  have p: "f_params ex_v = Leaf (scalar (Fin 0))"
    by (simp add: ex_v_def)
  have e: "ex_engine_read\<lparr>self_f := ex_v\<lparr>f_random_key := Suc 0, f_function_state := PNone,
                                          f_params := y\<rparr>,
                         self_optimizer_state := PTuple []\<rparr>
           = ex_engine\<lparr>self_f := ex_v\<lparr>f_random_key := Suc 0, f_params := y\<rparr>\<rparr>" for y
    by (simp add: ex_engine_read_def ex_engine_def ex_v_def)
  from update_nan_or_apply [OF h1] n1 update_nan_or_apply [OF h2] n2 h1 h2 show ?thesis
    by (simp add: ex_engine_sel ex_engine_read_sel p ex_apply_grads e del: tree_leaves.simps)
qed

text \<open>
  C4, as stated, fails in two ways. A gradient tree whose only non-finite value is an
  infinity is not rejected: on the batch whose first target is \<open>+\<infinity>\<close> the computed
  gradient is \<open>-\<infinity>\<close>, and \<^verbatim>\<open>update\<close> returns the metrics and stores the parameter
  \<open>+\<infinity>\<close>. And on the batch whose gradient is a NaN, \<^verbatim>\<open>update\<close> raises, but the engine
  it leaves is not the engine of before the call: the gradient computation has read
  \<^verbatim>\<open>rng\<close> and so replaced the random key of the online approximator.
\<close>

theorem update_applies_infinite_grads:
  "\<not> fval_isfinite NegInf \<and>
   tree_leaves (Leaf (scalar NegInf)) = [scalar NegInf] \<and>
   data (scalar NegInf) = [NegInf] \<and>
   grads_and_metrics (example_lib ex_batch_inf)
     (BaseTDLearningV_class (example_lib ex_batch_inf) ''V'' ex_target_func) ex_engine ex_batch_inf
     = (Inr (Leaf (scalar NegInf), PNone, ex_metrics_inf ''V''), ex_engine_read) \<and>
   update (example_lib ex_batch_inf)
     (BaseTDLearningV_class (example_lib ex_batch_inf) ''V'' ex_target_func) ex_engine ex_batch_inf
     = (Inr (ex_metrics_inf ''V''),
        ex_engine\<lparr>self_f := ex_v\<lparr>f_random_key := 1, f_params := Leaf (scalar PosInf)\<rparr>\<rparr>) \<and>
   f_params (self_f (ex_engine\<lparr>self_f := ex_v\<lparr>f_random_key := 1,
                                               f_params := Leaf (scalar PosInf)\<rparr>\<rparr>))
     \<noteq> f_params (self_f ex_engine) \<and>
   update (example_lib ex_batch_nan)
     (BaseTDLearningV_class (example_lib ex_batch_nan) ''V'' ex_target_func) ex_engine ex_batch_nan
     = (Inl (RuntimeError (Leaf (scalar NaN))), ex_engine_read) \<and>
   ex_engine_read \<noteq> ex_engine"
proof -
  have u: "update (example_lib ex_batch_inf)
     (BaseTDLearningV_class (example_lib ex_batch_inf) ''V'' ex_target_func) ex_engine ex_batch_inf
     = (Inr (ex_metrics_inf ''V''),
        ex_engine\<lparr>self_f := ex_v\<lparr>f_random_key := 1, f_params := Leaf (scalar PosInf)\<rparr>\<rparr>)"
    using ex_update_applied [OF ex_grads_and_metrics(2), of "''V''"] by simp
  have n: "grads_have_nan (Leaf (scalar NaN))"
    by (simp add: grads_have_nan_iff scalar_def)
  have v: "update (example_lib ex_batch_nan)
     (BaseTDLearningV_class (example_lib ex_batch_nan) ''V'' ex_target_func) ex_engine ex_batch_nan
     = (Inl (RuntimeError (Leaf (scalar NaN))), ex_engine_read)"
    by (simp add: update_unfold [OF ex_grads_and_metrics(3)] n)
  have d: "ex_engine_read \<noteq> ex_engine"
  proof
    assume "ex_engine_read = ex_engine"
    then have "f_random_key (self_f ex_engine_read) = f_random_key (self_f ex_engine)" by simp
    then show False by (simp add: ex_engine_read_def ex_engine_def ex_v_def)
  qed
  show ?thesis
    by (simp add: fval_isfinite_def ex_grads_and_metrics u v d)
       (simp add: scalar_def ex_engine_def ex_v_def)
qed

text \<open>
  C4, amended. When the computed gradient tree contains a NaN in some leaf,
  \<^verbatim>\<open>update\<close> raises the runtime error that carries the gradient tree, and the online
  parameters, the online function state, the optimizer state and the optimizer are those
  of before the call.
\<close>

theorem update_raises_on_nan:
  assumes "grads_and_metrics lib C self transition_batch
             = (Inr (grads, function_state, metrics), self1)"
  shows "(\<exists>g \<in> set (tree_leaves grads). NaN \<in> set (data g)) \<longrightarrow>
           fst (update lib C self transition_batch) = Inl (RuntimeError grads) \<and>
           f_params (self_f (snd (update lib C self transition_batch))) = f_params (self_f self) \<and>
           f_function_state (self_f (snd (update lib C self transition_batch)))
             = f_function_state (self_f self) \<and>
           self_optimizer_state (snd (update lib C self transition_batch))
             = self_optimizer_state self \<and>
           self_optimizer (snd (update lib C self transition_batch)) = self_optimizer self"
proof -
  have f: "self1 = self\<lparr>self_f := (self_f self)\<lparr>f_random_key := f_random_key (self_f self1)\<rparr>\<rparr>"
    using grads_and_metrics_frame [of lib C self transition_batch] assms by simp
  have s: "f_params (self_f self1) = f_params (self_f self)"
      "f_function_state (self_f self1) = f_function_state (self_f self)"
      "self_optimizer_state self1 = self_optimizer_state self"
      "self_optimizer self1 = self_optimizer self"
    by (subst f, simp)+
  show ?thesis
    by (simp add: update_unfold [OF assms] grads_have_nan_iff s)
qed

theorem update_raises_on_nan_witness:
  "grads_and_metrics (example_lib ex_batch_nan)
     (BaseTDLearningV_class (example_lib ex_batch_nan) ''V'' ex_target_func) ex_engine ex_batch_nan
     = (Inr (Leaf (scalar NaN), PNone, ex_metrics_nan ''V''), ex_engine_read) \<and>
   (\<exists>g \<in> set (tree_leaves (Leaf (scalar NaN))). NaN \<in> set (data g)) \<and>
   fst (update (example_lib ex_batch_nan)
          (BaseTDLearningV_class (example_lib ex_batch_nan) ''V'' ex_target_func)
          ex_engine ex_batch_nan) = Inl (RuntimeError (Leaf (scalar NaN))) \<and>
   f_params (self_f (snd (update (example_lib ex_batch_nan)
          (BaseTDLearningV_class (example_lib ex_batch_nan) ''V'' ex_target_func)
          ex_engine ex_batch_nan))) = Leaf (scalar (Fin 0)) \<and>
   self_optimizer_state (snd (update (example_lib ex_batch_nan)
          (BaseTDLearningV_class (example_lib ex_batch_nan) ''V'' ex_target_func)
          ex_engine ex_batch_nan)) = PTuple []"
proof -
  note h = ex_grads_and_metrics(3) [of "''V''"]
  have n: "\<exists>g \<in> set (tree_leaves (Leaf (scalar NaN))). NaN \<in> set (data g)"
    by (simp add: scalar_def)
  from update_raises_on_nan [OF h] n h show ?thesis
    by (simp add: ex_engine_sel ex_v_sel del: tree_leaves.simps)
qed

subsection \<open>The optimizer property\<close>

text \<open>
  C5. Assigning an optimizer whose initial state, computed from the current online
  parameters, has another tree structure than the current optimizer state raises the
  attribute error and leaves the engine, so the optimizer and the optimizer state, as it
  was; with the same structure the assignment replaces the optimizer and nothing else.
\<close>

theorem set_optimizer_checks_structure:
  "(tree_structure (opt_init new_optimizer (f_params (self_f self)))
      \<noteq> tree_structure (self_optimizer_state self) \<longrightarrow>
      set_optimizer self new_optimizer =
        (Inl (AttributeError ''cannot set optimizer attr: mismatch in optimizer_state structure''),
         self)) \<and>
   (tree_structure (opt_init new_optimizer (f_params (self_f self)))
      = tree_structure (self_optimizer_state self) \<longrightarrow>
      set_optimizer self new_optimizer = (Inr (), self\<lparr>self_optimizer := new_optimizer\<rparr>)) \<and>
   self_optimizer_state (snd (set_optimizer self new_optimizer)) = self_optimizer_state self"
  by (simp add: set_optimizer_def Let_def)

theorem set_optimizer_checks_structure_witness:
  "tree_structure (opt_init momentum_sgd (f_params (self_f ex_engine)))
     \<noteq> tree_structure (self_optimizer_state ex_engine) \<and>
   set_optimizer ex_engine momentum_sgd =
     (Inl (AttributeError ''cannot set optimizer attr: mismatch in optimizer_state structure''),
      ex_engine) \<and>
   tree_structure (opt_init decay_sgd (f_params (self_f ex_engine)))
     = tree_structure (self_optimizer_state ex_engine) \<and>
   set_optimizer ex_engine decay_sgd = (Inr (), ex_engine\<lparr>self_optimizer := decay_sgd\<rparr>) \<and>
   self_optimizer (ex_engine\<lparr>self_optimizer := decay_sgd\<rparr>) = decay_sgd \<and>
   self_optimizer_state (ex_engine\<lparr>self_optimizer := decay_sgd\<rparr>) = PTuple []"
proof -
  have a: "tree_structure (opt_init momentum_sgd (f_params (self_f ex_engine)))
             \<noteq> tree_structure (self_optimizer_state ex_engine)"
    by (simp add: tree_structure_def momentum_sgd_def ex_engine_def)
  have b: "tree_structure (opt_init decay_sgd (f_params (self_f ex_engine)))
             = tree_structure (self_optimizer_state ex_engine)"
    by (simp add: tree_structure_def decay_sgd_def ex_engine_def)
  from set_optimizer_checks_structure [of momentum_sgd ex_engine]
       set_optimizer_checks_structure [of decay_sgd ex_engine] a b
  show ?thesis by (simp add: ex_engine_def)
qed

subsection \<open>The two gradient-application closures\<close>

text \<open>
  The closures agree on an optimizer whose \<^verbatim>\<open>update\<close> gives the same result without
  \<^verbatim>\<open>params\<close> as with them.
\<close>

lemma apply_grads_func_Q_agrees:
  assumes "opt_update opt grads opt_state None = opt_update opt grads opt_state (Some params)"
  shows "apply_grads_func_Q lib opt opt_state params grads
           = apply_grads_func lib opt opt_state params grads"
  by (simp add: apply_grads_func_Q_def apply_grads_func_def assms)

text \<open>
  C3 fails on the code for an optimizer that uses the parameters: with decoupled weight
  decay, the parameter 1 and the gradient 1/2, the base class's closure returns the
  parameter -1/2 and the Q-variant's closure returns 1/2.
\<close>

theorem apply_grads_func_Q_differs:
  "apply_grads_func (example_lib ex_batch) decay_sgd (PTuple [])
     (Leaf (scalar (Fin 1))) (Leaf (scalar (Fin (1 / 2))))
     = (PTuple [], Leaf (scalar (Fin (- (1 / 2))))) \<and>
   apply_grads_func_Q (example_lib ex_batch) decay_sgd (PTuple [])
     (Leaf (scalar (Fin 1))) (Leaf (scalar (Fin (1 / 2))))
     = (PTuple [], Leaf (scalar (Fin (1 / 2))))"
  by (simp add: apply_grads_func_def apply_grads_func_Q_def example_lib_sel decay_sgd_def
      scalar_def ew1_def ew2_def)


subsection \<open>The constructors\<close>

lemma not_isinstance_V: "\<not> isinstance_V v \<Longrightarrow> (case v of PyV a \<Rightarrow> f a | _ \<Rightarrow> c) = c"
  by (cases v) simp_all

lemma not_isinstance_Q: "\<not> isinstance_Q v \<Longrightarrow> (case v of PyQ a \<Rightarrow> f a | _ \<Rightarrow> c) = c"
  by (cases v) simp_all

text \<open>
  C8. Constructing a V-learner with a \<^verbatim>\<open>v\<close> that is not a \<^verbatim>\<open>coax.V\<close> raises the
  type error, and so does a \<^verbatim>\<open>v_targ\<close> that is neither a \<^verbatim>\<open>coax.V\<close> nor
  \<^verbatim>\<open>None\<close>; in both cases \<^verbatim>\<open>optimizer.init\<close> has not been called. With arguments
  of the right types the constructor calls \<^verbatim>\<open>optimizer.init\<close> once, on the online
  parameters, and stores its result as the optimizer state.
\<close>

theorem BaseTDLearningV_init_type_checks:
  "(\<not> isinstance_V v \<longrightarrow>
      BaseTDLearningV_init lib v v_targ optimizer loss_function policy_regularizer
        = (Inl (TypeError ''v must be a coax.V''), [])) \<and>
   (isinstance_V v \<and> \<not> isinstance_V v_targ \<and> v_targ \<noteq> PyNone \<longrightarrow>
      BaseTDLearningV_init lib v v_targ optimizer loss_function policy_regularizer
        = (Inl (TypeError ''v_targ must be a coax.Q or None''), [])) \<and>
   (v = PyV a \<and> (isinstance_V v_targ \<or> v_targ = PyNone) \<and>
    (policy_regularizer = PyNone \<or> (\<exists>r. policy_regularizer = PyPolicyRegularizer r)) \<longrightarrow>
      (\<exists>e. BaseTDLearningV_init lib v v_targ optimizer loss_function policy_regularizer
              = (Inr e, [f_params a]) \<and>
            self_optimizer_state e =
              opt_init (case optimizer of None \<Rightarrow> optax_adam lib | Some opt \<Rightarrow> opt)
                (f_params a)))"
proof (intro conjI impI)
  assume "\<not> isinstance_V v"
  then show "BaseTDLearningV_init lib v v_targ optimizer loss_function policy_regularizer
               = (Inl (TypeError ''v must be a coax.V''), [])"
    by (simp add: BaseTDLearningV_init_def not_isinstance_V)
next
  assume "isinstance_V v \<and> \<not> isinstance_V v_targ \<and> v_targ \<noteq> PyNone"
  then show "BaseTDLearningV_init lib v v_targ optimizer loss_function policy_regularizer
               = (Inl (TypeError ''v_targ must be a coax.Q or None''), [])"
    by (cases v; cases v_targ) (simp_all add: BaseTDLearningV_init_def)
next
  assume h: "v = PyV a \<and> (isinstance_V v_targ \<or> v_targ = PyNone) \<and>
    (policy_regularizer = PyNone \<or> (\<exists>r. policy_regularizer = PyPolicyRegularizer r))"
  from h show "\<exists>e. BaseTDLearningV_init lib v v_targ optimizer loss_function policy_regularizer
              = (Inr e, [f_params a]) \<and>
            self_optimizer_state e =
              opt_init (case optimizer of None \<Rightarrow> optax_adam lib | Some opt \<Rightarrow> opt)
                (f_params a)"
    by (cases v_targ) (auto simp: BaseTDLearningV_init_def BaseTDLearning_init_def Let_def)
qed

lemma ex_engine_constructed:
  "BaseTDLearningV_init lib (PyV ex_v) PyNone (Some plain_sgd) (Some mse) PyNone
     = (Inr ex_engine, [Leaf (scalar (Fin 0))])"
  by (simp add: BaseTDLearningV_init_def BaseTDLearning_init_def ex_engine_def plain_sgd_def
      ex_v_def)

theorem BaseTDLearningV_init_type_checks_witness:
  "\<not> isinstance_V (PyObject ''int'') \<and>
   BaseTDLearningV_init (example_lib ex_batch) (PyObject ''int'') PyNone None None PyNone
     = (Inl (TypeError ''v must be a coax.V''), []) \<and>
   isinstance_V (PyV ex_v) \<and> \<not> isinstance_V (PyQ ex_q) \<and> PyQ ex_q \<noteq> PyNone \<and>
   BaseTDLearningV_init (example_lib ex_batch) (PyV ex_v) (PyQ ex_q) None None PyNone
     = (Inl (TypeError ''v_targ must be a coax.Q or None''), []) \<and>
   BaseTDLearningV_init (example_lib ex_batch) (PyV ex_v) PyNone (Some plain_sgd) (Some mse) PyNone
     = (Inr ex_engine, [f_params ex_v]) \<and>
   self_optimizer_state ex_engine = opt_init plain_sgd (f_params ex_v)"
proof -
  have a: "\<not> isinstance_V (PyObject ''int'')" by simp
  have b: "isinstance_V (PyV ex_v) \<and> \<not> isinstance_V (PyQ ex_q) \<and> PyQ ex_q \<noteq> PyNone" by simp
  have c: "PyV ex_v = PyV ex_v \<and> (isinstance_V PyNone \<or> PyNone = PyNone) \<and>
           (PyNone = PyNone \<or> (\<exists>r. PyNone = PyPolicyRegularizer r))" by simp
  have d: "f_params ex_v = Leaf (scalar (Fin 0))" by (simp add: ex_v_def)
  from BaseTDLearningV_init_type_checks
         [of "PyObject ''int''" "example_lib ex_batch" PyNone None None PyNone ex_v]
       BaseTDLearningV_init_type_checks
         [of "PyV ex_v" "example_lib ex_batch" "PyQ ex_q" None None PyNone ex_v]
       BaseTDLearningV_init_type_checks
         [of "PyV ex_v" "example_lib ex_batch" PyNone "Some plain_sgd" "Some mse" PyNone ex_v]
       a b c
  show ?thesis
    by (simp add: ex_engine_constructed d ex_engine_def)
qed

text \<open>
  C9, as stated, fails: the elements of a list are not checked. A Q-learner is
  constructed with the list \<^verbatim>\<open>[1]\<close> as \<^verbatim>\<open>q_targ\<close>.
\<close>

theorem BaseTDLearningQ_init_accepts_any_list:
  "isinstance_Q (PyQ ex_q) \<and>
   \<not> list_all isinstance_Q [PyObject ''int''] \<and>
   BaseTDLearningQ_init (example_lib ex_batch) (PyQ ex_q) (PyList [PyObject ''int''])
       (Some plain_sgd) (Some mse) PyNone
     = (Inr \<lparr>self_f = ex_q, self_f_targ = TargList [PyObject ''int''],
             self_loss_function = mse, self_policy_regularizer = None,
             self_optimizer = plain_sgd, self_optimizer_state = PTuple []\<rparr>,
        [Leaf (scalar (Fin 0))])"
  by (simp add: BaseTDLearningQ_init_def BaseTDLearning_init_def plain_sgd_def ex_q_def)

text \<open>
  C9, amended. Constructing a Q-learner raises the type error when \<^verbatim>\<open>q\<close> is not a
  \<^verbatim>\<open>coax.Q\<close>, and when \<^verbatim>\<open>q_targ\<close> is none of a \<^verbatim>\<open>coax.Q\<close>, \<^verbatim>\<open>None\<close>, a
  list and a tuple. With a \<^verbatim>\<open>coax.Q\<close> as \<^verbatim>\<open>q\<close>, one of these four as
  \<^verbatim>\<open>q_targ\<close>, whatever the elements of the list or tuple, and a policy regularizer of
  the right type, the construction succeeds and stores \<^verbatim>\<open>q_targ\<close> as it is.
\<close>

theorem BaseTDLearningQ_init_type_checks:
  "(\<not> isinstance_Q q \<longrightarrow>
      BaseTDLearningQ_init lib q q_targ optimizer loss_function policy_regularizer
        = (Inl (TypeError ''q must be a coax.Q''), [])) \<and>
   (isinstance_Q q \<and> \<not> isinstance_Q q_targ \<and> q_targ \<noteq> PyNone \<and>
    (\<forall>ts. q_targ \<noteq> PyList ts) \<and> (\<forall>ts. q_targ \<noteq> PyTuple ts) \<longrightarrow>
      BaseTDLearningQ_init lib q q_targ optimizer loss_function policy_regularizer
        = (Inl (TypeError ''q_targ must be a coax.Q or None''), [])) \<and>
   (q = PyQ a \<and>
    (isinstance_Q q_targ \<or> q_targ = PyNone \<or> (\<exists>ts. q_targ = PyList ts) \<or>
     (\<exists>ts. q_targ = PyTuple ts)) \<and>
    (policy_regularizer = PyNone \<or> (\<exists>r. policy_regularizer = PyPolicyRegularizer r)) \<longrightarrow>
      (\<exists>e. BaseTDLearningQ_init lib q q_targ optimizer loss_function policy_regularizer
              = (Inr e, [f_params a]) \<and>
            self_f_targ e =
              (case q_targ of PyQ t \<Rightarrow> TargObj t | PyList ts \<Rightarrow> TargList ts
               | PyTuple ts \<Rightarrow> TargTuple ts | _ \<Rightarrow> TargIsOnline)))"
proof (intro conjI impI)
  assume "\<not> isinstance_Q q"
  then show "BaseTDLearningQ_init lib q q_targ optimizer loss_function policy_regularizer
               = (Inl (TypeError ''q must be a coax.Q''), [])"
    by (simp add: BaseTDLearningQ_init_def not_isinstance_Q)
next
  assume "isinstance_Q q \<and> \<not> isinstance_Q q_targ \<and> q_targ \<noteq> PyNone \<and>
    (\<forall>ts. q_targ \<noteq> PyList ts) \<and> (\<forall>ts. q_targ \<noteq> PyTuple ts)"
  then show "BaseTDLearningQ_init lib q q_targ optimizer loss_function policy_regularizer
               = (Inl (TypeError ''q_targ must be a coax.Q or None''), [])"
    by (cases q; cases q_targ) (simp_all add: BaseTDLearningQ_init_def)
next
  assume h: "q = PyQ a \<and>
    (isinstance_Q q_targ \<or> q_targ = PyNone \<or> (\<exists>ts. q_targ = PyList ts) \<or>
     (\<exists>ts. q_targ = PyTuple ts)) \<and>
    (policy_regularizer = PyNone \<or> (\<exists>r. policy_regularizer = PyPolicyRegularizer r))"
  from h show "\<exists>e. BaseTDLearningQ_init lib q q_targ optimizer loss_function policy_regularizer
              = (Inr e, [f_params a]) \<and>
            self_f_targ e =
              (case q_targ of PyQ t \<Rightarrow> TargObj t | PyList ts \<Rightarrow> TargList ts
               | PyTuple ts \<Rightarrow> TargTuple ts | _ \<Rightarrow> TargIsOnline)"
    by (cases q_targ) (auto simp: BaseTDLearningQ_init_def BaseTDLearning_init_def Let_def)
qed

theorem BaseTDLearningQ_init_type_checks_witness:
  "\<not> isinstance_Q (PyV ex_v) \<and>
   BaseTDLearningQ_init (example_lib ex_batch) (PyV ex_v) PyNone None None PyNone
     = (Inl (TypeError ''q must be a coax.Q''), []) \<and>
   isinstance_Q (PyQ ex_q) \<and> \<not> isinstance_Q (PyObject ''dict'') \<and> PyObject ''dict'' \<noteq> PyNone \<and>
   BaseTDLearningQ_init (example_lib ex_batch) (PyQ ex_q) (PyObject ''dict'') None None PyNone
     = (Inl (TypeError ''q_targ must be a coax.Q or None''), []) \<and>
   (\<exists>e. BaseTDLearningQ_init (example_lib ex_batch) (PyQ ex_q) (PyTuple [PyQ ex_q, PyNone])
           None None PyNone = (Inr e, [f_params ex_q]) \<and>
         self_f_targ e = TargTuple [PyQ ex_q, PyNone])"
proof -
  have a: "\<not> isinstance_Q (PyV ex_v)" by simp
  have b: "isinstance_Q (PyQ ex_q) \<and> \<not> isinstance_Q (PyObject ''dict'') \<and>
           PyObject ''dict'' \<noteq> PyNone \<and> (\<forall>ts. PyObject ''dict'' \<noteq> PyList ts) \<and>
           (\<forall>ts. PyObject ''dict'' \<noteq> PyTuple ts)" by simp
  have c: "PyQ ex_q = PyQ ex_q \<and>
    (isinstance_Q (PyTuple [PyQ ex_q, PyNone]) \<or> PyTuple [PyQ ex_q, PyNone] = PyNone \<or>
     (\<exists>ts. PyTuple [PyQ ex_q, PyNone] = PyList ts) \<or>
     (\<exists>ts. PyTuple [PyQ ex_q, PyNone] = PyTuple ts)) \<and>
    (PyNone = PyNone \<or> (\<exists>r. PyNone = PyPolicyRegularizer r))" by simp
  from BaseTDLearningQ_init_type_checks
         [of "PyV ex_v" "example_lib ex_batch" PyNone None None PyNone ex_q]
       BaseTDLearningQ_init_type_checks
         [of "PyQ ex_q" "example_lib ex_batch" "PyObject ''dict''" None None PyNone ex_q]
       BaseTDLearningQ_init_type_checks
         [of "PyQ ex_q" "example_lib ex_batch" "PyTuple [PyQ ex_q, PyNone]" None None PyNone ex_q]
       a b c
  show ?thesis by simp
qed

subsection \<open>The loss of the V-learner\<close>

text \<open>
  C6. With a policy regularizer configured, let \<open>G\<close> be the bootstrap target, \<open>V\<close> the
  online prediction in training mode and \<open>reg\<close> the regularizer's output, computed from
  the regularizer's policy at the entries \<^verbatim>\<open>reg_pi\<close> of the target parameters and the
  target state, with the keyword arguments unpacked from the entry \<^verbatim>\<open>reg_hparams\<close> of
  the target parameters. Let that entry be a dict. If \<open>reg\<close> has the shape of \<open>G\<close>, the
  loss is the loss function at \<open>G + (- reg)\<close> and \<open>V\<close>. If it has another shape, the loss
  closure raises the assertion error, and so does the gradient closure that calls it
  (with the key \<open>rng\<close>, the first drawn from its own key \<open>rng0\<close>), which therefore returns
  no gradient. The loss closure raises the assertion error in no other case: when the
  entry \<^verbatim>\<open>reg_hparams\<close> is not a dict, the unpacking raises a type error and the
  regularizer has no output.
\<close>

theorem loss_func_V_regularized_target:
  assumes "self_policy_regularizer self = Some pr"
    and "next_rng lib rng0 = (rng, r0)"
    and "next_rng lib rng = (k1, r1)"
    and "next_rng lib r1 = (k2, r2)"
    and "next_rng lib r2 = (k3, r3)"
    and "G = target_func target_params target_state k1 transition_batch"
    and "v_function (self_f self) params state k2 (batch_S transition_batch) True = (V, state_new)"
    and "dist_params = fst (pi_function (reg_pi pr) (vtp_reg_pi target_params)
                              (vts_reg_pi target_state) k3 (batch_S transition_batch) False)"
  shows "(\<forall>kwargs. vtp_reg_hparams target_params = PDict kwargs \<longrightarrow>
           (shape (reg_function pr dist_params kwargs) = shape G \<longrightarrow>
              loss_func_V lib target_func self params target_params state target_state rng
                transition_batch
              = Inr (self_loss_function self
                       (jnp_add lib G (jnp_negative lib (reg_function pr dist_params kwargs))) V,
                     (self_loss_function self
                        (jnp_add lib G (jnp_negative lib (reg_function pr dist_params kwargs))) V,
                      jnp_add lib G (jnp_negative lib (reg_function pr dist_params kwargs)),
                      V, batch_S transition_batch, state_new))) \<and>
           (shape (reg_function pr dist_params kwargs) \<noteq> shape G \<longrightarrow>
              loss_func_V lib target_func self params target_params state target_state rng
                transition_batch
              = Inl (AssertionError ''bad shape'') \<and>
              grads_and_metrics_func_V lib name target_func self params target_params state
                target_state rng0 transition_batch
              = Inl (AssertionError ''bad shape''))) \<and>
         ((\<exists>msg. loss_func_V lib target_func self params target_params state target_state rng
                   transition_batch = Inl (AssertionError msg)) \<longleftrightarrow>
          (\<exists>kwargs. vtp_reg_hparams target_params = PDict kwargs \<and>
                    shape (reg_function pr dist_params kwargs) \<noteq> shape G)) \<and>
         ((\<forall>kwargs. vtp_reg_hparams target_params \<noteq> PDict kwargs) \<longrightarrow>
            loss_func_V lib target_func self params target_params state target_state rng
              transition_batch
            = Inl (TypeError ''argument after ** must be a mapping''))"
proof -
  have l: "loss_func_V lib target_func self params target_params state target_state rng
             transition_batch =
           (case vtp_reg_hparams target_params of
              PDict kwargs \<Rightarrow>
                if shape (reg_function pr dist_params kwargs) \<noteq> shape G
                then Inl (AssertionError ''bad shape'')
                else Inr (self_loss_function self
                       (jnp_add lib G (jnp_negative lib (reg_function pr dist_params kwargs))) V,
                     (self_loss_function self
                        (jnp_add lib G (jnp_negative lib (reg_function pr dist_params kwargs))) V,
                      jnp_add lib G (jnp_negative lib (reg_function pr dist_params kwargs)),
                      V, batch_S transition_batch, state_new))
            | _ \<Rightarrow> Inl (TypeError ''argument after ** must be a mapping''))"
    using assms
    by (simp add: loss_func_V_def Let_def case_prod_beta split: pytree.splits)
  show ?thesis
    by (cases "vtp_reg_hparams target_params")
       (simp_all add: l grads_and_metrics_func_V_def assms(2))
qed

theorem loss_func_V_regularized_target_witness:
  "self_policy_regularizer (ex_engine\<lparr>self_policy_regularizer := Some ex_reg\<rparr>) = Some ex_reg \<and>
   target_params_V (ex_engine\<lparr>self_policy_regularizer := Some ex_reg\<rparr>) = Inr ex_tp_reg \<and>
   vtp_reg_hparams ex_tp_reg = PDict [(''beta'', Leaf (scalar (Fin 1)))] \<and>
   shape (vec [1, 1, 1, 1]) = shape (vec [1, 2, 3, 4]) \<and>
   loss_func_V (example_lib ex_batch) ex_target_func
      (ex_engine\<lparr>self_policy_regularizer := Some ex_reg\<rparr>)
      (Leaf (scalar (Fin 0))) ex_tp_reg PNone ex_ts 1 ex_batch
     = Inr (scalar (Fin (7 / 2)),
            (scalar (Fin (7 / 2)), vec [0, 1, 2, 3], vec [0, 0, 0, 0], vec [1, 1, 1, 1], PNone)) \<and>
   shape (scalar (Fin 1)) \<noteq> shape (vec [1, 2, 3, 4]) \<and>
   loss_func_V (example_lib ex_batch) ex_target_func
      (ex_engine\<lparr>self_policy_regularizer := Some ex_reg_scalar\<rparr>)
      (Leaf (scalar (Fin 0))) ex_tp_reg PNone ex_ts 1 ex_batch
     = Inl (AssertionError ''bad shape'') \<and>
   grads_and_metrics_func_V (example_lib ex_batch) ''V'' ex_target_func
      (ex_engine\<lparr>self_policy_regularizer := Some ex_reg_scalar\<rparr>)
      (Leaf (scalar (Fin 0))) ex_tp_reg PNone ex_ts 0 ex_batch
     = Inl (AssertionError ''bad shape'') \<and>
   vtp_reg_hparams ex_tp = PNone \<and>
   loss_func_V (example_lib ex_batch) ex_target_func
      (ex_engine\<lparr>self_policy_regularizer := Some ex_reg\<rparr>)
      (Leaf (scalar (Fin 0))) ex_tp PNone ex_ts 1 ex_batch
     = Inl (TypeError ''argument after ** must be a mapping'')"
proof -
  let ?lib = "example_lib ex_batch"
  let ?e1 = "ex_engine\<lparr>self_policy_regularizer := Some ex_reg\<rparr>"
  let ?e2 = "ex_engine\<lparr>self_policy_regularizer := Some ex_reg_scalar\<rparr>"
  have k: "next_rng ?lib 0 = (1, 2)" "next_rng ?lib 1 = (3, 4)" "next_rng ?lib 4 = (9, 10)"
          "next_rng ?lib 10 = (21, 22)"
    by (simp_all add: example_lib_sel)
  have g: "vec [1, 2, 3, 4] = ex_target_func tp ex_ts 3 ex_batch" for tp :: v_target_params
    by (simp add: ex_target)
  have v: "v_function (self_f ?e1) (Leaf (scalar (Fin 0))) PNone 9 (batch_S ex_batch) True
             = (vec [0, 0, 0, 0], PNone)"
          "v_function (self_f ?e2) (Leaf (scalar (Fin 0))) PNone 9 (batch_S ex_batch) True
             = (vec [0, 0, 0, 0], PNone)"
    by (simp_all add: ex_engine_sel ex_v_sel ex_states ex_prediction)
  have d1: "Leaf (vec [1, 1, 1, 1])
              = fst (pi_function (reg_pi ex_reg) (vtp_reg_pi tp) (vts_reg_pi ex_ts) 21
                       (batch_S ex_batch) False)"
    and d2: "Leaf (vec [1, 1, 1, 1])
              = fst (pi_function (reg_pi ex_reg_scalar) (vtp_reg_pi tp) (vts_reg_pi ex_ts) 21
                       (batch_S ex_batch) False)" for tp
    by (simp_all add: ex_reg_def ex_reg_scalar_def ex_pi_def ex_states)
  have h: "vtp_reg_hparams ex_tp_reg = PDict [(''beta'', Leaf (scalar (Fin 1)))]"
       "vtp_reg_hparams ex_tp = PNone"
       "\<forall>kwargs. vtp_reg_hparams ex_tp \<noteq> PDict kwargs"
    by (simp_all add: ex_tp_reg_def ex_tp_def ex_hyperparams_def)
  have r: "reg_function ex_reg (Leaf (vec [1, 1, 1, 1])) [(''beta'', Leaf (scalar (Fin 1)))]
             = vec [1, 1, 1, 1]"
       "reg_function ex_reg_scalar (Leaf (vec [1, 1, 1, 1])) [(''beta'', Leaf (scalar (Fin 1)))]
             = scalar (Fin 1)"
    by (simp_all add: ex_reg_def ex_reg_scalar_def scalar_def vec_def ew1_def fmul_def)
  have s: "jnp_add ?lib (vec [1, 2, 3, 4]) (jnp_negative ?lib (vec [1, 1, 1, 1])) = vec [0, 1, 2, 3]"
    by (simp add: example_lib_sel ew1_def ew2_def vec_def)
  have sh: "shape (vec [1, 1, 1, 1]) = shape (vec [1, 2, 3, 4])"
           "shape (scalar (Fin 1)) \<noteq> shape (vec [1, 2, 3, 4])"
    by (simp_all add: vec_def scalar_def)
  have m: "mse (vec [0, 1, 2, 3]) (vec [0, 0, 0, 0]) = scalar (Fin (7 / 2))"
    by (simp add: mse_def arr_mean_def arr_sub_def ew1_def ew2_def vec_def fmul_def)
  have p1: "self_policy_regularizer ?e1 = Some ex_reg"
    and p2: "self_policy_regularizer ?e2 = Some ex_reg_scalar"
    by simp_all
  have t: "target_params_V ?e1 = Inr ex_tp_reg"
    by (simp add: target_params_V_def f_targ_obj_def ex_engine_def ex_v_def ex_tp_reg_def
        reg_pi_params_def reg_hparams_def ex_reg_def ex_pi_def)
  note a = loss_func_V_regularized_target
         [where target_func = ex_target_func and target_params = ex_tp_reg
            and target_state = ex_ts and name = "''V''",
          OF p1 k(1) k(2) k(3) k(4) g v(1) d1, THEN conjunct1, rule_format, OF h(1)]
  note b = loss_func_V_regularized_target
         [where target_func = ex_target_func and target_params = ex_tp_reg
            and target_state = ex_ts and name = "''V''",
          OF p2 k(1) k(2) k(3) k(4) g v(2) d2, THEN conjunct1, rule_format, OF h(1)]
  note c = loss_func_V_regularized_target
         [where target_func = ex_target_func and target_params = ex_tp
            and target_state = ex_ts and name = "''V''",
          OF p1 k(1) k(2) k(3) k(4) g v(1) d1, THEN conjunct2, THEN conjunct2, rule_format,
          OF h(3) [rule_format]]
  from a b c sh show ?thesis
    by (simp add: r s m h(1,2) t ex_engine_sel ex_states)
qed

subsection \<open>The gradient computation and the random key\<close>

text \<open>
  The closures of a V-learner depend on the engine through its code only: the forward
  functions of the online and the target network, the loss function and the functions of
  the regularizer.
\<close>

lemma loss_func_V_same_code:
  assumes "v_function (self_f s1) = v_function (self_f s2)"
    and "self_loss_function s1 = self_loss_function s2"
    and "map_option (\<lambda>r. (pi_function (reg_pi r), reg_function r)) (self_policy_regularizer s1)
         = map_option (\<lambda>r. (pi_function (reg_pi r), reg_function r)) (self_policy_regularizer s2)"
  shows "loss_func_V lib target_func s1 = loss_func_V lib target_func s2"
proof (intro ext)
  fix params target_params state target_state rng transition_batch
  show "loss_func_V lib target_func s1 params target_params state target_state rng transition_batch
      = loss_func_V lib target_func s2 params target_params state target_state rng transition_batch"
  proof (cases "self_policy_regularizer s1")
    case None
    with assms(3) have "self_policy_regularizer s2 = None" by simp
    with None show ?thesis by (simp add: loss_func_V_def assms(1,2) Let_def)
  next
    case (Some r1)
    with assms(3) obtain r2 where r2: "self_policy_regularizer s2 = Some r2"
      and "pi_function (reg_pi r1) = pi_function (reg_pi r2)"
      and "reg_function r1 = reg_function r2"
      by (cases "self_policy_regularizer s2") auto
    with Some show ?thesis
      by (simp add: loss_func_V_def assms(1,2) Let_def cong: if_cong pytree.case_cong)
  qed
qed

lemma grads_and_metrics_func_V_same_code:
  assumes "v_function (self_f s1) = v_function (self_f s2)"
    and "map_sum id v_function (f_targ_obj s1) = map_sum id v_function (f_targ_obj s2)"
    and "self_loss_function s1 = self_loss_function s2"
    and "map_option (\<lambda>r. (pi_function (reg_pi r), reg_function r)) (self_policy_regularizer s1)
         = map_option (\<lambda>r. (pi_function (reg_pi r), reg_function r)) (self_policy_regularizer s2)"
  shows "grads_and_metrics_func_V lib name target_func s1
         = grads_and_metrics_func_V lib name target_func s2"
proof -
  have l: "loss_func_V lib target_func s1 = loss_func_V lib target_func s2"
    using assms(1,3,4) by (rule loss_func_V_same_code)
  show ?thesis
  proof (intro ext)
    fix params target_params state target_state rng transition_batch
    show "grads_and_metrics_func_V lib name target_func s1
            params target_params state target_state rng transition_batch
        = grads_and_metrics_func_V lib name target_func s2
            params target_params state target_state rng transition_batch"
      using assms(2)
      by (cases "f_targ_obj s1"; cases "f_targ_obj s2")
         (simp_all add: grads_and_metrics_func_V_def l Let_def case_prod_beta split: sum.splits)
  qed
qed

lemma f_targ_obj_key:
  "map_sum id v_function (f_targ_obj (s\<lparr>self_f := (self_f s)\<lparr>f_random_key := k\<rparr>\<rparr>))
   = map_sum id v_function (f_targ_obj s)"
  by (simp add: f_targ_obj_def split: targ_ref.splits)

text \<open>
  C7, as stated, fails: \<^verbatim>\<open>grads_and_metrics\<close> changes the state of the engine. Reading
  \<^verbatim>\<open>self._f.rng\<close> splits the random key of the online approximator and stores one
  half. In the scenario the call returns the gradient \<open>-5\<close> and leaves an engine whose
  key is 1 where it was 0; the first call has drawn the key 2, and a second call, on the
  engine left by the first, draws the key 4.
\<close>

theorem grads_and_metrics_advances_key:
  "grads_and_metrics (example_lib ex_batch)
     (BaseTDLearningV_class (example_lib ex_batch) ''V'' ex_target_func) ex_engine ex_batch
     = (Inr (Leaf (scalar (Fin (- 5))), PNone, ex_metrics ''V''), ex_engine_read) \<and>
   ex_engine_read \<noteq> ex_engine \<and>
   f_random_key (self_f ex_engine) = 0 \<and>
   f_random_key (self_f ex_engine_read) = 1 \<and>
   fst (read_rng (example_lib ex_batch) (self_f ex_engine)) = 2 \<and>
   fst (read_rng (example_lib ex_batch) (self_f ex_engine_read)) = 4"
proof -
  have d: "ex_engine_read \<noteq> ex_engine"
  proof
    assume "ex_engine_read = ex_engine"
    then have "f_random_key (self_f ex_engine_read) = f_random_key (self_f ex_engine)" by simp
    then show False by (simp add: ex_engine_read_def ex_engine_def ex_v_def)
  qed
  show ?thesis
    by (simp add: ex_grads_and_metrics d ex_engine_sel ex_engine_read_sel ex_v_sel read_rng_def
        example_lib_sel)
qed

text \<open>
  C7, amended. Take two states of a V-learner with the same code and with identical
  online parameters, target parameters, function state, target function state and random
  key of the online approximator. On every transition batch \<^verbatim>\<open>grads_and_metrics\<close>
  returns the same outcome in both, whatever else differs between the two states. Of each
  state the call changes the random key of the online approximator and nothing else: when
  both target dicts are built, the key is replaced by the first half of its split;
  otherwise it is left as it was.
\<close>

theorem grads_and_metrics_V_deterministic:
  assumes "f_params (self_f s1) = f_params (self_f s2)"
    and "target_params_V s1 = target_params_V s2"
    and "f_function_state (self_f s1) = f_function_state (self_f s2)"
    and "target_function_state_V s1 = target_function_state_V s2"
    and "f_random_key (self_f s1) = f_random_key (self_f s2)"
    and "v_function (self_f s1) = v_function (self_f s2)"
    and "map_sum id v_function (f_targ_obj s1) = map_sum id v_function (f_targ_obj s2)"
    and "self_loss_function s1 = self_loss_function s2"
    and "map_option (\<lambda>r. (pi_function (reg_pi r), reg_function r)) (self_policy_regularizer s1)
         = map_option (\<lambda>r. (pi_function (reg_pi r), reg_function r)) (self_policy_regularizer s2)"
  shows "fst (grads_and_metrics lib (BaseTDLearningV_class lib name target_func) s1 transition_batch)
         = fst (grads_and_metrics lib (BaseTDLearningV_class lib name target_func) s2
                  transition_batch) \<and>
         snd (grads_and_metrics lib (BaseTDLearningV_class lib name target_func) s1 transition_batch)
         = s1\<lparr>self_f := (self_f s1)
                 \<lparr>f_random_key :=
                    (case (target_params_V s1, target_function_state_V s1) of
                       (Inr tp, Inr ts) \<Rightarrow> fst (jax_random_split lib (f_random_key (self_f s1)))
                     | _ \<Rightarrow> f_random_key (self_f s1))\<rparr>\<rparr> \<and>
         snd (grads_and_metrics lib (BaseTDLearningV_class lib name target_func) s2 transition_batch)
         = s2\<lparr>self_f := (self_f s2)
                 \<lparr>f_random_key :=
                    (case (target_params_V s2, target_function_state_V s2) of
                       (Inr tp, Inr ts) \<Rightarrow> fst (jax_random_split lib (f_random_key (self_f s2)))
                     | _ \<Rightarrow> f_random_key (self_f s2))\<rparr>\<rparr>"
proof -
  let ?k = "fst (jax_random_split lib (f_random_key (self_f s2)))"
  have c: "grads_and_metrics_func_V lib name target_func
             (s1\<lparr>self_f := (self_f s1)\<lparr>f_random_key := ?k\<rparr>\<rparr>)
           = grads_and_metrics_func_V lib name target_func
               (s2\<lparr>self_f := (self_f s2)\<lparr>f_random_key := ?k\<rparr>\<rparr>)"
    by (rule grads_and_metrics_func_V_same_code)
       (simp_all add: assms(6-9) f_targ_obj_key)
  show ?thesis
    by (simp add: grads_and_metrics_def BaseTDLearningV_class_def assms(1-5) c read_rng_def
        Let_def case_prod_beta split: sum.splits)
qed

theorem grads_and_metrics_V_deterministic_witness:
  "f_params (self_f ex_engine) = f_params (self_f ex_engine_later) \<and>
   target_params_V ex_engine = target_params_V ex_engine_later \<and>
   f_function_state (self_f ex_engine) = f_function_state (self_f ex_engine_later) \<and>
   target_function_state_V ex_engine = target_function_state_V ex_engine_later \<and>
   f_random_key (self_f ex_engine) = f_random_key (self_f ex_engine_later) \<and>
   ex_engine \<noteq> ex_engine_later \<and>
   fst (grads_and_metrics (example_lib ex_batch)
          (BaseTDLearningV_class (example_lib ex_batch) ''V'' ex_target_func)
          ex_engine_later ex_batch)
     = Inr (Leaf (scalar (Fin (- 5))), PNone, ex_metrics ''V'') \<and>
   snd (grads_and_metrics (example_lib ex_batch)
          (BaseTDLearningV_class (example_lib ex_batch) ''V'' ex_target_func)
          ex_engine_later ex_batch)
     = ex_engine_later\<lparr>self_f := ex_v\<lparr>f_random_key := 1\<rparr>\<rparr>"
proof -
  have i: "f_params (self_f ex_engine) = f_params (self_f ex_engine_later)"
      "target_params_V ex_engine = target_params_V ex_engine_later"
      "f_function_state (self_f ex_engine) = f_function_state (self_f ex_engine_later)"
      "target_function_state_V ex_engine = target_function_state_V ex_engine_later"
      "f_random_key (self_f ex_engine) = f_random_key (self_f ex_engine_later)"
    by (simp_all add: ex_engine_def ex_engine_later_def target_params_V_def
        target_function_state_V_def f_targ_obj_def reg_pi_params_def reg_hparams_def
        reg_pi_function_state_def)
  have c: "v_function (self_f ex_engine) = v_function (self_f ex_engine_later)"
      "map_sum id v_function (f_targ_obj ex_engine)
         = map_sum id v_function (f_targ_obj ex_engine_later)"
      "self_loss_function ex_engine = self_loss_function ex_engine_later"
      "map_option (\<lambda>r. (pi_function (reg_pi r), reg_function r))
           (self_policy_regularizer ex_engine)
         = map_option (\<lambda>r. (pi_function (reg_pi r), reg_function r))
             (self_policy_regularizer ex_engine_later)"
    by (simp_all add: ex_engine_def ex_engine_later_def f_targ_obj_def)
  have d: "ex_engine \<noteq> ex_engine_later"
  proof
    assume "ex_engine = ex_engine_later"
    then have "self_f_targ ex_engine = self_f_targ ex_engine_later" by simp
    then show False by (simp add: ex_engine_def ex_engine_later_def)
  qed
  have t: "target_params_V ex_engine_later = Inr ex_tp"
      "target_function_state_V ex_engine_later = Inr ex_ts"
      "self_f ex_engine_later = ex_v"
    using i(2,4) by (simp_all add: ex_engine_targets ex_engine_later_def)
  from grads_and_metrics_V_deterministic
         [where target_func = ex_target_func and name = "''V''"
            and lib = "example_lib ex_batch" and transition_batch = ex_batch,
          OF i c]
       i d
  show ?thesis
    by (simp add: ex_grads_and_metrics t example_lib_sel ex_v_sel)
qed

subsection \<open>The diagnostic prediction of the target network\<close>

text \<open>The loss closures do not look at the target network.\<close>

lemma loss_func_V_f_targ:
  "loss_func_V lib target_func (self\<lparr>self_f_targ := ft\<rparr>) = loss_func_V lib target_func self"
  by (intro ext)
     (simp add: loss_func_V_def Let_def case_prod_beta
        cong: if_cong option.case_cong pytree.case_cong)

lemma loss_func_Q_f_targ:
  "loss_func_Q lib target_func (self\<lparr>self_f_targ := ft\<rparr>) = loss_func_Q lib target_func self"
  by (intro ext)
     (simp add: loss_func_Q_def Let_def case_prod_beta
        cong: if_cong option.case_cong pytree.case_cong)

text \<open>
  C10. Whatever object is the target network, the V-learner's gradient closure evaluates
  it at the entry \<^verbatim>\<open>v_targ\<close> of the target parameters and at the online function
  state \<open>state\<close>, and the Q-learner's gradient closure evaluates it at the entry
  \<^verbatim>\<open>q_targ\<close> of the target parameters and the entry \<^verbatim>\<open>q_targ\<close> of the target
  state. The prediction enters the metrics \<^verbatim>\<open>bias_targ\<close> and \<^verbatim>\<open>rmse_targ\<close> only:
  the gradients, the new function state, the other three metrics and the gradient
  diagnostics are the same for every target network.
\<close>

theorem targ_diagnostics_state:
  assumes "next_rng lib rng = (k1, r1)"
    and "next_rng lib r1 = (k2, r2)"
    and "loss_func_V lib target_func_V self_V params target_params_V' state target_state_V k1
           transition_batch = Inr (l, (loss, G, V, S, state_new))"
    and "loss_func_Q lib target_func_Q self_Q params target_params_Q' state target_state_Q k1
           transition_batch = Inr (l', (loss', G', Q, S', A, state_new'))"
  shows "(let grads = jax_grad lib
                 (\<lambda>p. map_sum id fst
                        (loss_func_V lib target_func_V self_V p target_params_V' state
                           target_state_V k1 transition_batch)) params
          in \<forall>ft v_targ. f_targ_obj (self_V\<lparr>self_f_targ := ft\<rparr>) = Inr v_targ \<longrightarrow>
               grads_and_metrics_func_V lib name target_func_V (self_V\<lparr>self_f_targ := ft\<rparr>)
                 params target_params_V' state target_state_V rng transition_batch
               = (let V_targ = fst (v_function v_targ (vtp_v_targ target_params_V') state k2 S False)
                  in Inr (grads, state_new,
                     [name @ ''/loss'' \<mapsto> loss,
                      name @ ''/bias'' \<mapsto> jnp_mean lib (jnp_subtract lib V G),
                      name @ ''/rmse'' \<mapsto>
                        jnp_sqrt lib (jnp_mean lib (jnp_square lib (jnp_subtract lib V G))),
                      name @ ''/bias_targ'' \<mapsto> jnp_mean lib (jnp_subtract lib V_targ V),
                      name @ ''/rmse_targ'' \<mapsto>
                        jnp_sqrt lib (jnp_mean lib (jnp_square lib (jnp_subtract lib V_targ V)))]
                     ++ get_grads_diagnostics lib grads (name @ ''/grads_'')))) \<and>
         (let grads = jax_grad lib
                 (\<lambda>p. map_sum id fst
                        (loss_func_Q lib target_func_Q self_Q p target_params_Q' state
                           target_state_Q k1 transition_batch)) params
          in \<forall>ft q_targ. f_targ_obj (self_Q\<lparr>self_f_targ := ft\<rparr>) = Inr q_targ \<longrightarrow>
               grads_and_metrics_func_Q lib name target_func_Q (self_Q\<lparr>self_f_targ := ft\<rparr>)
                 params target_params_Q' state target_state_Q rng transition_batch
               = (let Q_targ = fst (q_function_type1 q_targ (qtp_q_targ target_params_Q')
                                      (qts_q_targ target_state_Q) k2 S' A False)
                  in Inr (grads, state_new',
                     [name @ ''/loss'' \<mapsto> loss',
                      name @ ''/bias'' \<mapsto> jnp_mean lib (jnp_subtract lib Q G'),
                      name @ ''/rmse'' \<mapsto>
                        jnp_sqrt lib (jnp_mean lib (jnp_square lib (jnp_subtract lib Q G'))),
                      name @ ''/bias_targ'' \<mapsto> jnp_mean lib (jnp_subtract lib Q_targ Q),
                      name @ ''/rmse_targ'' \<mapsto>
                        jnp_sqrt lib (jnp_mean lib (jnp_square lib (jnp_subtract lib Q_targ Q)))]
                     ++ get_grads_diagnostics lib grads (name @ ''/grads_''))))"
  using assms
  by (simp add: grads_and_metrics_func_V_def grads_and_metrics_func_Q_def loss_func_V_f_targ
      loss_func_Q_f_targ Let_def case_prod_beta)


lemma ex_loss_func_Q:
  "loss_func_Q (example_lib b) ex_target_func ex_engine_Q (Leaf (scalar (Fin 0))) tp st ts k ex_batch =
     Inr (scalar (Fin (15 / 2)),
          (scalar (Fin (15 / 2)), vec [1, 2, 3, 4], vec [0, 0, 0, 0], vec [1, 1, 1, 1],
           vec [0, 0, 0, 0], st))"
proof -
  have q: "q_function_type1 ex_q (Leaf (scalar (Fin 0))) st k' (vec [1, 1, 1, 1]) A True
             = (vec [0, 0, 0, 0], st)" for k' A
    by (simp add: ex_q_def ex_prediction)
  have e: "self_f ex_engine_Q = ex_q" "self_policy_regularizer ex_engine_Q = None"
      "self_loss_function ex_engine_Q = mse" "q_action_preprocessor ex_q = (\<lambda>A. A)"
    by (simp_all add: ex_engine_Q_def ex_q_def)
  show ?thesis
    by (simp add: loss_func_Q_def example_lib_sel e ex_states q ex_target ex_mse Let_def)
qed

theorem targ_diagnostics_state_witness:
  "target_params_V ex_engine_V = Inr ex_tp_V \<and>
   target_function_state_V ex_engine_V = Inr ex_ts_V \<and>
   target_params_Q ex_engine_Q = Inr ex_tp_Q \<and>
   target_function_state_Q ex_engine_Q = Inr ex_ts_Q \<and>
   f_targ_obj ex_engine_V = Inr ex_v_targ \<and>
   f_targ_obj ex_engine_Q = Inr ex_q_targ \<and>
   (\<exists>m. grads_and_metrics_func_V (example_lib ex_batch) ''V'' ex_target_func
           ex_engine_V (Leaf (scalar (Fin 0))) ex_tp_V PNone ex_ts_V 0 ex_batch
         = Inr (Leaf (scalar (Fin (- 5))), PNone, m) \<and>
        m ''V/bias_targ'' = Some (scalar (Fin 1))) \<and>
   (\<exists>m. grads_and_metrics_func_Q (example_lib ex_batch) ''Q'' ex_target_func
           ex_engine_Q (Leaf (scalar (Fin 0))) ex_tp_Q PNone ex_ts_Q 0 ex_batch
         = Inr (Leaf (scalar (Fin (- 5))), PNone, m) \<and>
        m ''Q/bias_targ'' = Some (scalar (Fin 9)))"
proof -
  let ?lib = "example_lib ex_batch"
  have k: "next_rng ?lib 0 = (1, 2)" "next_rng ?lib 2 = (5, 6)"
    by (simp_all add: example_lib_sel)
  have lv: "loss_func_V ?lib ex_target_func ex_engine (Leaf (scalar (Fin 0))) ex_tp_V PNone
              ex_ts_V 1 ex_batch
            = Inr (scalar (Fin (15 / 2)),
                   (scalar (Fin (15 / 2)), vec [1, 2, 3, 4], vec [0, 0, 0, 0],
                    vec [1, 1, 1, 1], PNone))"
    by (simp add: scenario_loss_func ex_engine_sel ex_v_sel ex_target ex_states ex_prediction
        ex_mse)
  have lq: "loss_func_Q ?lib ex_target_func ex_engine_Q (Leaf (scalar (Fin 0))) ex_tp_Q PNone
              ex_ts_Q 1 ex_batch
            = Inr (scalar (Fin (15 / 2)),
                   (scalar (Fin (15 / 2)), vec [1, 2, 3, 4], vec [0, 0, 0, 0],
                    vec [1, 1, 1, 1], vec [0, 0, 0, 0], PNone))"
    by (rule ex_loss_func_Q)
  have p: "target_params_V ex_engine_V = Inr ex_tp_V"
      "target_function_state_V ex_engine_V = Inr ex_ts_V"
      "target_params_Q ex_engine_Q = Inr ex_tp_Q"
      "target_function_state_Q ex_engine_Q = Inr ex_ts_Q"
    by (simp_all add: target_params_V_def target_function_state_V_def target_params_Q_def
        target_function_state_Q_def f_targ_obj_def ex_engine_V_def ex_engine_Q_def ex_engine_def
        ex_v_targ_def ex_q_targ_def ex_v_def ex_q_def ex_tp_V_def ex_ts_V_def ex_tp_Q_def
        ex_ts_Q_def reg_pi_params_def reg_hparams_def reg_pi_function_state_def)
  have t: "f_targ_obj ex_engine_V = Inr ex_v_targ" "f_targ_obj ex_engine_Q = Inr ex_q_targ"
    by (simp_all add: f_targ_obj_def ex_engine_V_def ex_engine_Q_def)
  have u: "ex_engine\<lparr>self_f_targ := TargObj ex_v_targ\<rparr> = ex_engine_V"
      "ex_engine_Q\<lparr>self_f_targ := TargObj ex_q_targ\<rparr> = ex_engine_Q"
    by (simp_all add: ex_engine_V_def ex_engine_Q_def)
  have vt: "fst (v_function ex_v_targ (vtp_v_targ ex_tp_V) PNone 5 (vec [1, 1, 1, 1]) False)
              = vec [1, 1, 1, 1]"
    by (simp add: ex_v_targ_def state_v_def)
  have qt: "fst (q_function_type1 ex_q_targ (qtp_q_targ ex_tp_Q) (qts_q_targ ex_ts_Q) 5
                   (vec [1, 1, 1, 1]) (vec [0, 0, 0, 0]) False) = vec [9, 9, 9, 9]"
    by (simp add: ex_q_targ_def state_v_def ex_ts_Q_def)
  have m1: "arr_mean (arr_sub (vec [1, 1, 1, 1]) (vec [0, 0, 0, 0])) = scalar (Fin 1)"
           "arr_mean (arr_sub (vec [9, 9, 9, 9]) (vec [0, 0, 0, 0])) = scalar (Fin 9)"
    by (simp_all add: arr_mean_def arr_sub_def ew1_def ew2_def vec_def fmul_Fin)
  note th = targ_diagnostics_state
      [where target_func_V = ex_target_func and target_func_Q = ex_target_func
         and self_V = ex_engine and self_Q = ex_engine_Q, OF k lv lq, unfolded Let_def]
  from th [of "''V''", THEN conjunct1, rule_format, of "TargObj ex_v_targ" ex_v_targ]
  have "grads_and_metrics_func_V ?lib ''V'' ex_target_func
           (ex_engine\<lparr>self_f_targ := TargObj ex_v_targ\<rparr>) (Leaf (scalar (Fin 0))) ex_tp_V
           PNone ex_ts_V 0 ex_batch
     = Inr (Leaf (scalar (Fin (- 5))), PNone,
        [''V'' @ ''/loss'' \<mapsto> scalar (Fin (15 / 2)),
         ''V'' @ ''/bias'' \<mapsto> arr_mean (arr_sub (vec [0, 0, 0, 0]) (vec [1, 2, 3, 4])),
         ''V'' @ ''/rmse'' \<mapsto>
           ew1 fsqrt (arr_mean (ew1 (\<lambda>d. fmul d d) (arr_sub (vec [0, 0, 0, 0]) (vec [1, 2, 3, 4])))),
         ''V'' @ ''/bias_targ'' \<mapsto> scalar (Fin 1),
         ''V'' @ ''/rmse_targ'' \<mapsto>
           ew1 fsqrt (arr_mean (ew1 (\<lambda>d. fmul d d) (arr_sub (vec [1, 1, 1, 1]) (vec [0, 0, 0, 0]))))]
        ++ Map.empty)"
    using t(1) by (simp add: u vt m1 example_lib_sel ex_grads)
  moreover
  from th [of "''Q''", THEN conjunct2, rule_format, of "TargObj ex_q_targ" ex_q_targ]
  have "grads_and_metrics_func_Q ?lib ''Q'' ex_target_func
           (ex_engine_Q\<lparr>self_f_targ := TargObj ex_q_targ\<rparr>) (Leaf (scalar (Fin 0))) ex_tp_Q
           PNone ex_ts_Q 0 ex_batch
     = Inr (Leaf (scalar (Fin (- 5))), PNone,
        [''Q'' @ ''/loss'' \<mapsto> scalar (Fin (15 / 2)),
         ''Q'' @ ''/bias'' \<mapsto> arr_mean (arr_sub (vec [0, 0, 0, 0]) (vec [1, 2, 3, 4])),
         ''Q'' @ ''/rmse'' \<mapsto>
           ew1 fsqrt (arr_mean (ew1 (\<lambda>d. fmul d d) (arr_sub (vec [0, 0, 0, 0]) (vec [1, 2, 3, 4])))),
         ''Q'' @ ''/bias_targ'' \<mapsto> scalar (Fin 9),
         ''Q'' @ ''/rmse_targ'' \<mapsto>
           ew1 fsqrt (arr_mean (ew1 (\<lambda>d. fmul d d) (arr_sub (vec [9, 9, 9, 9]) (vec [0, 0, 0, 0]))))]
        ++ Map.empty)"
    using t(2) by (simp add: u qt m1 example_lib_sel ex_grads)
  ultimately show ?thesis
    using p t by (simp add: u)
qed

subsection \<open>The TD error\<close>

text \<open>
  Without a policy regularizer, the TD error is the negated gradient of the loss function
  with respect to its second argument, at the bootstrap target and at the online
  prediction computed with \<^verbatim>\<open>is_training\<close> off.
\<close>

lemma ex_engine_Q_targets:
  "target_params_Q ex_engine_Q = Inr ex_tp_Q"
  "target_function_state_Q ex_engine_Q = Inr ex_ts_Q"
  by (simp_all add: target_params_Q_def target_function_state_Q_def f_targ_obj_def
      ex_engine_Q_def ex_q_targ_def ex_q_def ex_tp_Q_def ex_ts_Q_def reg_pi_params_def
      reg_hparams_def reg_pi_function_state_def)

lemma td_error_func_V_no_regularizer:
  assumes "self_policy_regularizer self = None"
    and "next_rng lib rng = (k1, r1)"
    and "next_rng lib r1 = (k2, r2)"
  shows "td_error_func_V lib target_func self params target_params state target_state rng
           transition_batch
         = Inr (jnp_negative lib
                  (jax_grad_argnums1 lib (self_loss_function self)
                     (target_func target_params target_state k1 transition_batch)
                     (fst (v_function (self_f self) params state k2
                             (batch_S transition_batch) False))))"
  using assms by (simp add: td_error_func_V_def Let_def case_prod_beta)

lemma td_error_func_Q_no_regularizer:
  assumes "self_policy_regularizer self = None"
    and "next_rng lib rng = (k1, r1)"
    and "next_rng lib r1 = (k2, r2)"
  shows "td_error_func_Q lib target_func self params target_params state target_state rng
           transition_batch
         = Inr (jnp_negative lib
                  (jax_grad_argnums1 lib (self_loss_function self)
                     (target_func target_params target_state k1 transition_batch)
                     (fst (q_function_type1 (self_f self) params state k2
                             (batch_S transition_batch)
                             (q_action_preprocessor (self_f self) (batch_A transition_batch))
                             False))))"
  using assms by (simp add: td_error_func_Q_def Let_def case_prod_beta)
text \<open>
  The gradient of the mean squared error: on finite arrays of one length, \<open>mse_grad\<close> is
  the partial derivative of \<open>mse\<close> with respect to each prediction.
\<close>

lemma arr_sub_vec:
  assumes "length ps = length ys"
  shows "arr_sub (vec ps) (vec ys) = vec (map2 (-) ps ys)"
proof -
  have "map2 fadd (map Fin ps) (map fneg (map Fin ys)) = map Fin (map2 (-) ps ys)"
    using assms by (induction ps ys rule: list_induct2) simp_all
  then show ?thesis
    using assms by (simp add: arr_sub_def ew1_def ew2_def vec_def)
qed

lemma foldr_fadd_Fin: "foldr fadd (map Fin xs) (Fin 0) = Fin (sum_list xs)"
  by (induction xs) simp_all

lemma arr_mean_vec:
  "xs \<noteq> [] \<Longrightarrow> arr_mean (vec xs) = scalar (Fin (sum_list xs / real (length xs)))"
  by (simp add: arr_mean_def vec_def foldr_fadd_Fin fmul_Fin)

lemma ew1_fmul_vec: "ew1 (fmul (Fin c)) (vec xs) = vec (map ((*) c) xs)"
  by (simp add: ew1_def vec_def fmul_Fin)

lemma ew1_square_vec: "ew1 (\<lambda>d. fmul d d) (vec xs) = vec (map (\<lambda>d. d * d) xs)"
  by (simp add: ew1_def vec_def fmul_Fin)

lemma mse_vec:
  assumes "length ys = length ps" and "ps \<noteq> []"
  shows "mse (vec ys) (vec ps)
         = scalar (Fin (sum_list (map (\<lambda>d. d * d) (map2 (-) ps ys)) / real (length ps)))"
proof -
  have n: "map (\<lambda>d. d * d) (map2 (-) ps ys) \<noteq> []"
    and l: "length (map (\<lambda>d. d * d) (map2 (-) ps ys)) = length ps"
    using assms by auto
  have "mse (vec ys) (vec ps) = arr_mean (vec (map (\<lambda>d. d * d) (map2 (-) ps ys)))"
    unfolding mse_def using assms(1) by (simp only: arr_sub_vec ew1_square_vec)
  also have "\<dots> = scalar (Fin (sum_list (map (\<lambda>d. d * d) (map2 (-) ps ys)) / real (length ps)))"
    by (simp only: arr_mean_vec [OF n] l)
  finally show ?thesis .
qed

lemma mse_grad_vec:
  assumes "length ys = length ps"
  shows "mse_grad (vec ys) (vec ps)
         = vec (map ((*) (2 / real (length ps))) (map2 (-) ps ys))"
proof -
  have "length (data (vec ps)) = length ps" by (simp add: vec_def)
  then show ?thesis
    unfolding mse_grad_def using assms by (simp only: arr_sub_vec ew1_fmul_vec)
qed

lemma sum_squares_update:
  assumes "length ys = length ps" and "i < length ps"
  shows "sum_list (map (\<lambda>d. d * d) (map2 (-) (ps[i := x]) ys))
         = sum_list (map (\<lambda>d. d * d) (map2 (-) (take i ps) (take i ys)))
           + (x - ys ! i) * (x - ys ! i)
           + sum_list (map (\<lambda>d. d * d) (map2 (-) (drop (Suc i) ps) (drop (Suc i) ys)))"
proof -
  have p: "ps[i := x] = take i ps @ x # drop (Suc i) ps"
    using assms(2) by (rule upd_conv_take_nth_drop)
  have y: "ys = take i ys @ ys ! i # drop (Suc i) ys"
    using assms by (simp add: id_take_nth_drop)
  have "zip (ps[i := x]) ys
        = zip (take i ps) (take i ys) @ (x, ys ! i) # zip (drop (Suc i) ps) (drop (Suc i) ys)"
    by (subst p, subst y) (simp add: assms(1))
  then show ?thesis by (simp add: algebra_simps)
qed

lemma mse_grad_is_gradient:
  assumes "length ys = length ps" and "i < length ps"
  shows "((\<lambda>x. item (mse (vec ys) (vec (ps[i := x]))))
            has_real_derivative fin_val (data (mse_grad (vec ys) (vec ps)) ! i)) (at (ps ! i))"
proof -
  let ?n = "real (length ps)"
  let ?a = "sum_list (map (\<lambda>d. d * d) (map2 (-) (take i ps) (take i ys)))"
  let ?b = "sum_list (map (\<lambda>d. d * d) (map2 (-) (drop (Suc i) ps) (drop (Suc i) ys)))"
  have n: "?n \<noteq> 0" using assms(2) by auto
  have f: "item (mse (vec ys) (vec (ps[i := x])))
           = (?a + (x - ys ! i) * (x - ys ! i) + ?b) / ?n" for x
  proof -
    have "ps[i := x] \<noteq> []" and "length ys = length (ps[i := x])"
      using assms by auto
    then have "mse (vec ys) (vec (ps[i := x]))
               = scalar (Fin (sum_list (map (\<lambda>d. d * d) (map2 (-) (ps[i := x]) ys)) / ?n))"
      using mse_vec [of ys "ps[i := x]"] by simp
    then show ?thesis
      by (simp only: sum_squares_update [OF assms]) (simp add: item_def scalar_def fin_val_def)
  qed
  have g: "fin_val (data (mse_grad (vec ys) (vec ps)) ! i) = 2 / ?n * (ps ! i - ys ! i)"
    using assms by (simp add: mse_grad_vec) (simp add: vec_def fin_val_def)
  have "((\<lambda>x. (?a + (x - ys ! i) * (x - ys ! i) + ?b) / ?n)
            has_real_derivative 2 / ?n * (ps ! i - ys ! i)) (at (ps ! i))"
    using n by (auto intro!: derivative_eq_intros simp: field_simps)
  then show ?thesis by (simp add: f g)
qed


lemma ex_mse_grad:
  "ew1 fneg (mse_grad (vec [1, 2, 3, 4]) (vec [0, 0, 0, 0])) = vec [1 / 2, 1, 3 / 2, 2]"
  by (simp add: mse_grad_def arr_sub_def ew1_def ew2_def vec_def fmul_Fin)


text \<open>
  The gradient of the scenario's loss: on a batch of finite states and targets,
  \<open>linear_mse_grad\<close> is the derivative of the loss of the linear state-value function
  with respect to its weight. In the scenario it is \<open>-5\<close>.
\<close>

lemma ew2_fmul_vec:
  assumes "length xs = length ys"
  shows "ew2 fmul (vec xs) (vec ys) = vec (map2 (*) xs ys)"
proof -
  have "map2 fmul (map Fin xs) (map Fin ys) = map Fin (map2 (*) xs ys)"
    using assms by (induction xs ys rule: list_induct2) (simp_all add: fmul_Fin)
  then show ?thesis
    using assms by (simp add: ew2_def vec_def)
qed

lemma linear_v_vec:
  "fst (linear_v (Leaf (scalar (Fin w))) st k (vec ss) tr) = vec (map ((*) w) ss)"
  by (simp add: linear_v_def scalar_def ew1_fmul_vec)

lemma sum_squares_deriv:
  assumes "length ss = length gs"
  shows "((\<lambda>w. sum_list (map (\<lambda>d. d * d) (map2 (-) (map ((*) w) ss) gs)))
            has_real_derivative
              sum_list (map2 (*) (map ((*) 2) (map2 (-) (map ((*) w0) ss) gs)) ss)) (at w0)"
  using assms
proof (induction ss gs rule: list_induct2)
  case Nil
  show ?case by simp
next
  case (Cons s ss g gs)
  have "((\<lambda>w. (w * s - g) * (w * s - g)
              + sum_list (map (\<lambda>d. d * d) (map2 (-) (map ((*) w) ss) gs)))
            has_real_derivative
              2 * (w0 * s - g) * s
              + sum_list (map2 (*) (map ((*) 2) (map2 (-) (map ((*) w0) ss) gs)) ss)) (at w0)"
    by (rule DERIV_add [OF _ Cons.IH])
       (auto intro!: derivative_eq_intros simp: algebra_simps)
  then show ?case by simp
qed

lemma linear_mse_grad_is_gradient:
  assumes "batch_S b = vec ss"
    and "ex_target_func () () 0 b = vec gs"
    and "length ss = length gs"
    and "ss \<noteq> []"
  shows "((\<lambda>w. item (mse (ex_target_func () () 0 b)
                   (fst (linear_v (Leaf (scalar (Fin w))) PNone 0 (batch_S b) True))))
            has_real_derivative leaf_item (linear_mse_grad b (Leaf (scalar (Fin w0))))) (at w0)"
proof -
  let ?n = "real (length ss)"
  have n: "?n \<noteq> 0" using assms(4) by simp
  have f: "item (mse (ex_target_func () () 0 b)
                   (fst (linear_v (Leaf (scalar (Fin w))) PNone 0 (batch_S b) True)))
           = sum_list (map (\<lambda>d. d * d) (map2 (-) (map ((*) w) ss) gs)) / ?n" for w
  proof -
    have "mse (vec gs) (vec (map ((*) w) ss))
          = scalar (Fin (sum_list (map (\<lambda>d. d * d) (map2 (-) (map ((*) w) ss) gs))
                         / real (length (map ((*) w) ss))))"
      by (rule mse_vec) (simp_all add: assms(3,4))
    then have "mse (ex_target_func () () 0 b)
                 (fst (linear_v (Leaf (scalar (Fin w))) PNone 0 (batch_S b) True))
          = scalar (Fin (sum_list (map (\<lambda>d. d * d) (map2 (-) (map ((*) w) ss) gs)) / ?n))"
      by (simp only: assms(1,2) linear_v_vec length_map)
    then show ?thesis
      by (simp add: item_def scalar_def fin_val_def)
  qed
  have l: "length (map ((*) w0) ss) = length gs"
      "length (map ((*) 2) (map2 (-) (map ((*) w0) ss) gs)) = length ss"
      "map2 (*) (map ((*) 2) (map2 (-) (map ((*) w0) ss) gs)) ss \<noteq> []"
      "length (map2 (*) (map ((*) 2) (map2 (-) (map ((*) w0) ss) gs)) ss) = length ss"
    using assms(3,4) by auto
  have "linear_mse_grad b (Leaf (scalar (Fin w0)))
        = Leaf (arr_mean (ew2 fmul (ew1 (fmul (Fin 2))
                  (arr_sub (vec (map ((*) w0) ss)) (vec gs))) (vec ss)))"
    by (simp add: linear_mse_grad_def assms(1,2) linear_v_vec Let_def)
  also have "\<dots> = Leaf (arr_mean (vec (map2 (*) (map ((*) 2) (map2 (-) (map ((*) w0) ss) gs)) ss)))"
    by (simp only: arr_sub_vec [OF l(1)] ew1_fmul_vec ew2_fmul_vec [OF l(2)])
  also have "\<dots> = Leaf (scalar (Fin (sum_list
                  (map2 (*) (map ((*) 2) (map2 (-) (map ((*) w0) ss) gs)) ss) / ?n)))"
    by (simp only: arr_mean_vec [OF l(3)] l(4))
  finally have g: "leaf_item (linear_mse_grad b (Leaf (scalar (Fin w0))))
        = sum_list (map2 (*) (map ((*) 2) (map2 (-) (map ((*) w0) ss) gs)) ss) / ?n"
    by (simp add: leaf_item_def item_def scalar_def fin_val_def)
  have "((\<lambda>w. sum_list (map (\<lambda>d. d * d) (map2 (-) (map ((*) w) ss) gs)) / ?n)
            has_real_derivative
              sum_list (map2 (*) (map ((*) 2) (map2 (-) (map ((*) w0) ss) gs)) ss) / ?n) (at w0)"
    by (rule DERIV_cdivide [OF sum_squares_deriv [OF assms(3)]])
  then show ?thesis by (simp only: f g)
qed

lemma ex_linear_mse_grad_is_gradient:
  "((\<lambda>w. item (mse (ex_target_func () () 0 ex_batch)
                   (fst (linear_v (Leaf (scalar (Fin w))) PNone 0 (batch_S ex_batch) True))))
      has_real_derivative - 5) (at 0)"
proof -
  have "leaf_item (linear_mse_grad ex_batch (Leaf (scalar (Fin 0)))) = - 5"
    by (simp only: ex_grads) (simp add: leaf_item_def item_def scalar_def fin_val_def)
  with linear_mse_grad_is_gradient [of ex_batch "[1, 1, 1, 1]" "[1, 2, 3, 4]" 0]
  show ?thesis by (simp add: ex_states ex_target)
qed

text \<open>
  C2 fails on the code for the mean squared error. In the scenario the targets are
  \<open>[1, 2, 3, 4]\<close>, the predictions \<open>[0, 0, 0, 0]\<close> and the loss is 7.5; \<^verbatim>\<open>td_error\<close> of
  the V-learner and of the Q-learner return \<open>[1/2, 1, 3/2, 2]\<close>, half the difference of
  target and prediction: the mean over the four transitions scales the derivative.
\<close>

theorem td_error_mean_squared_error:
  "self_loss_function ex_engine = mse \<and>
   mse (vec [1, 2, 3, 4]) (vec [0, 0, 0, 0]) = scalar (Fin (15 / 2)) \<and>
   td_error (example_lib ex_batch)
      (BaseTDLearningV_class (example_lib ex_batch) ''V'' ex_target_func) ex_engine ex_batch
     = (Inr (vec [1 / 2, 1, 3 / 2, 2]), ex_engine_read) \<and>
   td_error (example_lib ex_batch)
      (BaseTDLearningQ_class (example_lib ex_batch) ''Q'' ex_target_func) ex_engine_Q ex_batch
     = (Inr (vec [1 / 2, 1, 3 / 2, 2]), ex_engine_Q\<lparr>self_f := ex_q\<lparr>f_random_key := 1\<rparr>\<rparr>) \<and>
   arr_sub (vec [1, 2, 3, 4]) (vec [0, 0, 0, 0]) = vec [1, 2, 3, 4] \<and>
   vec [1 / 2, 1, 3 / 2, 2] \<noteq> vec [1, 2, 3, 4]"
proof -
  let ?lib = "example_lib ex_batch"
  have k: "next_rng ?lib 2 = (5, 6)" "next_rng ?lib 6 = (13, 14)"
    by (simp_all add: example_lib_sel)
  have v: "td_error_func_V ?lib ex_target_func e (Leaf (scalar (Fin 0))) tp PNone ts 2 ex_batch
           = Inr (vec [1 / 2, 1, 3 / 2, 2])"
    if "self_policy_regularizer e = None" "self_loss_function e = mse"
       "v_function (self_f e) = linear_v" for tp ts e
    using td_error_func_V_no_regularizer
            [where lib = ?lib and self = e and target_func = ex_target_func, OF that(1) k]
    by (simp add: that example_lib_sel ex_target ex_states ex_prediction ex_mse_grad)
  have qe: "self_f ex_engine_Q = ex_q" "self_policy_regularizer ex_engine_Q = None"
      "self_loss_function ex_engine_Q = mse" "q_action_preprocessor ex_q = (\<lambda>A. A)"
      "f_params ex_q = Leaf (scalar (Fin 0))" "f_function_state ex_q = PNone" "f_random_key ex_q = 0"
      "q_function_type1 ex_q = (\<lambda>params state rng S A is_training.
              linear_v params state rng S is_training)"
    by (simp_all add: ex_engine_Q_def ex_q_def)
  have q: "td_error_func_Q ?lib ex_target_func (ex_engine_Q\<lparr>self_f := ex_q\<lparr>f_random_key := kk\<rparr>\<rparr>)
             (Leaf (scalar (Fin 0))) tp PNone ts 2
             ex_batch = Inr (vec [1 / 2, 1, 3 / 2, 2])" for tp ts kk
    using td_error_func_Q_no_regularizer
            [where lib = ?lib and self = "ex_engine_Q\<lparr>self_f := ex_q\<lparr>f_random_key := kk\<rparr>\<rparr>"
               and target_func = ex_target_func, OF _ k]
    by (simp add: qe example_lib_sel ex_target ex_states ex_prediction ex_mse_grad)
  have r: "ex_engine\<lparr>self_f := ex_v\<lparr>f_random_key := Suc 0\<rparr>\<rparr> = ex_engine_read"
    by (simp add: ex_engine_read_def)
  have tv: "td_error ?lib (BaseTDLearningV_class ?lib ''V'' ex_target_func) ex_engine ex_batch
              = (Inr (vec [1 / 2, 1, 3 / 2, 2]), ex_engine_read)"
    by (simp add: td_error_def BaseTDLearningV_class_def ex_engine_targets ex_engine_sel ex_v_sel
        ex_read_rng r Let_def v ex_engine_read_sel)
  have rq: "read_rng ?lib ex_q = (2, ex_q\<lparr>f_random_key := 1\<rparr>)"
    by (simp add: read_rng_def example_lib_sel qe)
  have tq: "td_error ?lib (BaseTDLearningQ_class ?lib ''Q'' ex_target_func) ex_engine_Q ex_batch
              = (Inr (vec [1 / 2, 1, 3 / 2, 2]), ex_engine_Q\<lparr>self_f := ex_q\<lparr>f_random_key := 1\<rparr>\<rparr>)"
    by (simp add: td_error_def BaseTDLearningQ_class_def ex_engine_Q_targets qe(1-7) q rq Let_def)
  have s: "arr_sub (vec [1, 2, 3, 4]) (vec [0, 0, 0, 0]) = vec [1, 2, 3, 4]"
    by (simp add: arr_sub_def ew1_def ew2_def vec_def)
  have d: "vec [1 / 2, 1, 3 / 2, 2] \<noteq> vec [1, 2, 3, 4]"
    by (simp add: vec_def)
  show ?thesis
    by (simp add: tv tq s d ex_mse ex_engine_sel)
qed


end
